theory Spec2Isabelle
  imports Main "HOL-Library.Word" "HOL-Library.Multiset"
begin

section \<open>The world the dataset fetcher runs in\<close>

text \<open>
  The module \<^verbatim>\<open>funk_svd/dataset.py\<close> touches three things outside itself: the file
  system, the process environment and the network. They are the fields of \<open>world\<close>;
  every function of the module takes the world and returns the new one.

  \<^item> The file system is a map from path strings to nodes. \<^verbatim>\<open>os.path.exists p\<close> is
    membership of \<open>p\<close> in the map. Only the nodes the module itself tests or writes are
    tracked; paths are compared as strings.
  \<^item> The network is the queue of replies the next requests will get; an empty queue is
    an unreachable server.
  \<^item> \<open>trace\<close> records every call to a collaborator, in order, what was printed included.

  Failures of the storage itself (permissions, a full disk) are left out: a write to a
  path that is not a directory succeeds.
\<close>

type_synonym path = string
type_synonym bytes = string

datatype node = File bytes | Dir

datatype error =
    UnboundLocalError string
  | FileNotFoundError path
  | IsADirectoryError path
  | URLError
  | IncompleteRead bytes
  | BadZipFile
  | EmptyDataError
  | ParserError

text \<open>
  A reply to \<^verbatim>\<open>urllib.request.urlopen\<close>: the connection fails, the whole body
  arrives, or the stream breaks. \<^verbatim>\<open>shutil.copyfileobj\<close> reads the body in blocks and
  writes each block once its read has returned. \<open>Broken written partial\<close> is a stream
  whose reads returned \<open>written\<close> before one of them raised; \<open>partial\<close> is what that
  last read had received, which travels in the exception
  (\<^verbatim>\<open>http.client.IncompleteRead.partial\<close>) and never reaches the file.
\<close>

datatype response = ConnFailed | Body bytes | Broken bytes bytes

datatype event =
    Printed string
  | MakeDirs path
  | ReadCsv path
  | UrlOpen string
  | WriteFile path
  | ExtractAll path path
  | Remove path

record world =
  fs :: "path \<rightharpoonup> node"
  environ :: "string \<rightharpoonup> string"
  net :: "response list"
  trace :: "event list"

text \<open>
  One row of the ratings table. \<^verbatim>\<open>u_id\<close> and \<^verbatim>\<open>i_id\<close> are \<^verbatim>\<open>np.uint32\<close>; the rating is
  a \<^verbatim>\<open>np.float64\<close>, kept abstract as \<open>'f\<close>; the timestamp is the value of the
  \<^verbatim>\<open>datetime64\<close> column, an integer count of time units.
\<close>

record 'f rating_row =
  u_id :: "32 word"
  i_id :: "32 word"
  rating :: 'f
  timestamp :: int

text \<open>A DataFrame: the rows in order, each with its index label.\<close>

type_synonym 'f df = "(nat \<times> 'f rating_row) list"

text \<open>
  What the libraries compute and the module does not: \<^verbatim>\<open>os.path.expanduser\<close>, the
  decoding of a zip archive (the members written, in order, with their sanitised
  relative names, and the error raised after them if any), Python's \<^verbatim>\<open>float\<close>,
  \<^verbatim>\<open>datetime.datetime.fromtimestamp\<close> (\<open>None\<close> is a raised exception), and pandas'
  parser: \<open>pd_read_csv\<close> is \<^verbatim>\<open>pd.read_csv\<close> with the arguments of lines 52 and 53
  (\<^verbatim>\<open>names\<close>, \<^verbatim>\<open>dtype\<close>, \<^verbatim>\<open>header=0\<close>, \<^verbatim>\<open>parse_dates\<close>), given the date parser it is
  handed and the bytes of the file. How pandas ends lines, reads quotes, pads or
  rejects rows and converts fields is its own business and is not fixed here.
\<close>

record 'f collab =
  expanduser :: "string \<Rightarrow> string"
  unzip :: "bytes \<Rightarrow> (string \<times> bytes) list \<times> error option"
  py_float :: "string \<Rightarrow> 'f option"
  fromtimestamp :: "'f \<Rightarrow> int option"
  pd_read_csv :: "(string \<Rightarrow> int option) \<Rightarrow> bytes \<Rightarrow> error + 'f df"

section \<open>Library calls\<close>

definition log_event :: "event \<Rightarrow> world \<Rightarrow> world" where
  "log_event e w = w\<lparr>trace := trace w @ [e]\<rparr>"

definition py_print :: "string \<Rightarrow> world \<Rightarrow> world" where
  "py_print s w = log_event (Printed s) w"

text \<open>\<^verbatim>\<open>posixpath.join\<close> of two components.\<close>

definition os_path_join :: "path \<Rightarrow> path \<Rightarrow> path" where
  "os_path_join a b =
     (if b \<noteq> [] \<and> hd b = CHR ''/'' then b
      else if a = [] \<or> last a = CHR ''/'' then a @ b
      else a @ ''/'' @ b)"

definition os_path_exists :: "world \<Rightarrow> path \<Rightarrow> bool" where
  "os_path_exists w p = (fs w p \<noteq> None)"

text \<open>\<^verbatim>\<open>os.makedirs\<close>: the empty path raises; failures of the storage itself are not modelled.\<close>

definition os_makedirs :: "world \<Rightarrow> path \<Rightarrow> error + world" where
  "os_makedirs w p =
     (if p = [] then Inl (FileNotFoundError p)
      else Inr (log_event (MakeDirs p) (w\<lparr>fs := (fs w)(p \<mapsto> Dir)\<rparr>)))"

definition os_remove :: "world \<Rightarrow> path \<Rightarrow> error + world" where
  "os_remove w p =
     (case fs w p of
        None \<Rightarrow> Inl (FileNotFoundError p)
      | Some Dir \<Rightarrow> Inl (IsADirectoryError p)
      | Some (File b) \<Rightarrow> Inr (log_event (Remove p) (w\<lparr>fs := (fs w)(p := None)\<rparr>)))"

text \<open>
  \<^verbatim>\<open>zf.extractall(dir)\<close>: each member is written at \<^verbatim>\<open>os.path.join(dir, name)\<close>, a later
  member over an earlier one.
\<close>

fun write_members :: "path \<Rightarrow> (string \<times> bytes) list \<Rightarrow> (path \<rightharpoonup> node) \<Rightarrow> (path \<rightharpoonup> node)" where
  "write_members dir [] m = m"
| "write_members dir ((name, b) # ms) m = write_members dir ms (m(os_path_join dir name \<mapsto> File b))"

text \<open>
  \<^verbatim>\<open>with zipfile.ZipFile(zip_path, "r") as zf: zf.extractall(dir)\<close>. The members decoded
  before an error are on disk when it is raised.
\<close>

definition zip_extractall :: "'f collab \<Rightarrow> world \<Rightarrow> path \<Rightarrow> path \<Rightarrow> error option \<times> world" where
  "zip_extractall c w zip_path dir =
     (let w0 = log_event (ExtractAll zip_path dir) w in
      case fs w zip_path of
        None \<Rightarrow> (Some (FileNotFoundError zip_path), w0)
      | Some Dir \<Rightarrow> (Some (IsADirectoryError zip_path), w0)
      | Some (File z) \<Rightarrow>
          (case unzip c z of (ms, err) \<Rightarrow> (err, w0\<lparr>fs := write_members dir ms (fs w0)\<rparr>)))"

text \<open>
  \<^verbatim>\<open>with urllib.request.urlopen(url) as r, open(zip_path, "wb") as f: shutil.copyfileobj(r, f)\<close>.
  The items of the \<^verbatim>\<open>with\<close> are entered left to right: a failed connection opens no
  file; once the connection stands the file is created (empty), and when a read raises
  it holds the blocks whose reads had returned, and nothing of the failing read.
\<close>

definition download :: "world \<Rightarrow> string \<Rightarrow> path \<Rightarrow> error option \<times> world" where
  "download w url zip_path =
     (let w0 = log_event (UrlOpen url) w in
      case net w0 of
        [] \<Rightarrow> (Some URLError, w0)
      | r # rs \<Rightarrow>
          (let w1 = w0\<lparr>net := rs\<rparr> in
           case r of
             ConnFailed \<Rightarrow> (Some URLError, w1)
           | Body b \<Rightarrow>
               (if fs w1 zip_path = Some Dir then (Some (IsADirectoryError zip_path), w1)
                else (None, log_event (WriteFile zip_path) (w1\<lparr>fs := (fs w1)(zip_path \<mapsto> File b)\<rparr>)))
           | Broken written partial \<Rightarrow>
               (if fs w1 zip_path = Some Dir then (Some (IsADirectoryError zip_path), w1)
                else (Some (IncompleteRead partial),
                      log_event (WriteFile zip_path)
                        (w1\<lparr>fs := (fs w1)(zip_path \<mapsto> File written)\<rparr>)))))"

section \<open>\<^verbatim>\<open>get_data_dir_path\<close>\<close>

text \<open>
  Lines 35 to 37, the path taken when no explicit one is given:
  \<^verbatim>\<open>os.environ.get("FUNK_SVD_DATA", default=default)\<close>, then \<^verbatim>\<open>os.path.expanduser\<close>.
\<close>

definition default_data_dir :: "'f collab \<Rightarrow> world \<Rightarrow> path" where
  "default_data_dir c w =
     (let dflt = os_path_join ''~'' ''funk_svd_data'' in
      expanduser c (case environ w ''FUNK_SVD_DATA'' of None \<Rightarrow> dflt | Some v \<Rightarrow> v))"

definition get_data_dir_path :: "'f collab \<Rightarrow> world \<Rightarrow> path option \<Rightarrow> error + (path \<times> world)" where
  "get_data_dir_path c w data_dir_path =
     (let d = (case data_dir_path of None \<Rightarrow> default_data_dir c w | Some p \<Rightarrow> p)
      in if \<not> os_path_exists w d
         then (case os_makedirs w d of Inl e \<Rightarrow> Inl e | Inr w' \<Rightarrow> Inr (d, w'))
         else Inr (d, w))"

section \<open>\<^verbatim>\<open>ml20m_ratings_csv_to_df\<close>\<close>

text \<open>The pieces of a string between the occurrences of a delimiter.\<close>

fun split_on :: "char \<Rightarrow> string \<Rightarrow> string list" where
  "split_on d [] = [[]]"
| "split_on d (x # xs) =
     (if x = d then [] # split_on d xs
      else (case split_on d xs of [] \<Rightarrow> [[x]] | y # ys \<Rightarrow> (x # y) # ys))"

text \<open>The nested \<^verbatim>\<open>date_parser\<close>: \<^verbatim>\<open>datetime.datetime.fromtimestamp(float(time))\<close>.\<close>

definition date_parser :: "'f collab \<Rightarrow> string \<Rightarrow> int option" where
  "date_parser c time = (case py_float c time of None \<Rightarrow> None | Some x \<Rightarrow> fromtimestamp c x)"

text \<open>
  The one result of \<^verbatim>\<open>pd.read_csv\<close> the model fixes itself is that of a file holding
  the header line and nothing else: one line of four comma-separated labels, each a
  non-empty word of letters, digits and underscores (as
  \<^verbatim>\<open>userId,movieId,rating,timestamp\<close>), ended by nothing, LF, CR LF or CR. With
  \<^verbatim>\<open>header=0\<close> that line is consumed as the header, the columns are named by
  \<^verbatim>\<open>names\<close>, and the frame has no row. Such a line holds no quote, no blank and no
  line end of its own.
\<close>

definition header_char :: "char \<Rightarrow> bool" where
  "header_char ch =
     (ch \<in> set (''abcdefghijklmnopqrstuvwxyz'' @ ''ABCDEFGHIJKLMNOPQRSTUVWXYZ'' @ ''0123456789_''))"

definition header_label :: "string \<Rightarrow> bool" where
  "header_label f = (f \<noteq> [] \<and> list_all header_char f)"

definition header_line :: "string \<Rightarrow> bool" where
  "header_line h =
     (case split_on CHR '','' h of
        [u, i, r, t] \<Rightarrow> header_label u \<and> header_label i \<and> header_label r \<and> header_label t
      | _ \<Rightarrow> False)"

definition strip_eol :: "bytes \<Rightarrow> bytes" where
  "strip_eol b =
     (case rev b of
        [] \<Rightarrow> b
      | [l] \<Rightarrow> if l = CHR 0x0A \<or> l = CHR 0x0D then [] else b
      | l # k # r \<Rightarrow>
          if l = CHR 0x0A \<and> k = CHR 0x0D then rev r
          else if l = CHR 0x0A \<or> l = CHR 0x0D then rev (k # r)
          else b)"

definition header_only_file :: "bytes \<Rightarrow> bool" where
  "header_only_file b = header_line (strip_eol b)"

text \<open>
  Lines 52 and 53: \<^verbatim>\<open>pd.read_csv(csv_path, names=names, dtype=dtype, header=0,
  parse_dates=["timestamp"], date_parser=date_parser)\<close> on the bytes of the file. On
  every file that is not header-only the frame, or the error, is the one pandas gives.
\<close>

definition read_csv :: "'f collab \<Rightarrow> bytes \<Rightarrow> error + 'f df" where
  "read_csv c b =
     (if header_only_file b then Inr [] else pd_read_csv c (date_parser c) b)"

text \<open>
  \<^verbatim>\<open>df.sort_values(by="timestamp")\<close>: the rows travel with their labels. (pandas does
  not promise the order of rows with equal timestamps; the model's sort keeps them in
  file order.)
\<close>

definition sort_values :: "'f df \<Rightarrow> 'f df" where
  "sort_values d = sort_key (\<lambda>(i, r). timestamp r) d"

text \<open>\<^verbatim>\<open>df.reset_index(drop=True)\<close>.\<close>

definition reset_index :: "'f df \<Rightarrow> 'f df" where
  "reset_index d = zip [0..<length d] (map snd d)"

text \<open>Lines 52 to 58 on the bytes of the file: read, sort, reset the index.\<close>

definition csv_bytes_to_df :: "'f collab \<Rightarrow> bytes \<Rightarrow> error + 'f df" where
  "csv_bytes_to_df c b =
     (case read_csv c b of
        Inl e \<Rightarrow> Inl e
      | Inr d \<Rightarrow> Inr (reset_index (sort_values d)))"

text \<open>The function on a path: a missing file or a directory is the error of opening it.\<close>

definition ml20m_ratings_csv_to_df :: "'f collab \<Rightarrow> world \<Rightarrow> path \<Rightarrow> (error + 'f df) \<times> world" where
  "ml20m_ratings_csv_to_df c w csv_path =
     (let w' = log_event (ReadCsv csv_path) w in
      case fs w csv_path of
        None \<Rightarrow> (Inl (FileNotFoundError csv_path), w')
      | Some Dir \<Rightarrow> (Inl (IsADirectoryError csv_path), w')
      | Some (File b) \<Rightarrow> (csv_bytes_to_df c b, w'))"

section \<open>\<^verbatim>\<open>fetch_ml20m_ratings\<close>\<close>

text \<open>
  The local variables after lines 71 to 79. In the \<^verbatim>\<open>else\<close> branch \<^verbatim>\<open>zip_path\<close> and
  \<^verbatim>\<open>url\<close> are never assigned: they are \<open>None\<close>, and reading them raises.
\<close>

record locals =
  data_dir_path :: path
  csv_path :: path
  zip_path :: "path option"
  url :: "string option"

definition dirname :: string where
  "dirname = ''ml-20m''"

definition filename :: string where
  "filename = ''ratings.csv''"

definition ml20m_url :: string where
  "ml20m_url = ''http://files.grouplens.org/datasets/movielens/ml-20m.zip''"

text \<open>Lines 75 and 76: the source file and the archive under the data directory \<open>d\<close>.\<close>

definition cache_csv_path :: "path \<Rightarrow> path" where
  "cache_csv_path d = os_path_join (os_path_join d dirname) filename"

definition cache_zip_path :: "path \<Rightarrow> path" where
  "cache_zip_path d = os_path_join d dirname @ ''.zip''"

definition bind_locals :: "'f collab \<Rightarrow> world \<Rightarrow> path option \<Rightarrow> error + (locals \<times> world)" where
  "bind_locals c w arg =
     (case arg of
        None \<Rightarrow>
          (case get_data_dir_path c w None of
             Inl e \<Rightarrow> Inl e
           | Inr (d, w') \<Rightarrow>
               Inr (\<lparr>data_dir_path = d,
                     csv_path = cache_csv_path d,
                     zip_path = Some (cache_zip_path d),
                     url = Some ml20m_url\<rparr>, w'))
      | Some p \<Rightarrow>
          Inr (\<lparr>data_dir_path = p, csv_path = p, zip_path = None, url = None\<rparr>, w))"

text \<open>
  The function calls itself with no bound. The first argument is the number of
  activations it may still open; \<open>None\<close> is a run that needs more. The branches, in
  the order of the source:
  \<^item> lines 81 to 83: the source file exists, the loader's result is returned;
  \<^item> line 85: \<^verbatim>\<open>zip_path\<close> is read, which raises when it was never assigned;
  \<^item> lines 86 to 93: print, extract into \<^verbatim>\<open>data_dir_path\<close>, remove the archive, call
    \<^verbatim>\<open>fetch_ml20m_ratings()\<close>; an exception leaves the branch where it is raised;
  \<^item> lines 96 to 100: print, download to \<^verbatim>\<open>zip_path\<close>, call \<^verbatim>\<open>fetch_ml20m_ratings()\<close>.
\<close>

fun fetch_ml20m_ratings ::
  "nat \<Rightarrow> 'f collab \<Rightarrow> world \<Rightarrow> path option \<Rightarrow> ((error + 'f df) \<times> world) option" where
  "fetch_ml20m_ratings 0 c w arg = None"
| "fetch_ml20m_ratings (Suc n) c w arg =
     (case bind_locals c w arg of
        Inl e \<Rightarrow> Some (Inl e, w)
      | Inr (l, w1) \<Rightarrow>
          if os_path_exists w1 (csv_path l) then Some (ml20m_ratings_csv_to_df c w1 (csv_path l))
          else (case zip_path l of
                  None \<Rightarrow> Some (Inl (UnboundLocalError ''zip_path''), w1)
                | Some zp \<Rightarrow>
                    if os_path_exists w1 zp then
                      (case zip_extractall c (py_print ''Unzipping data...'' w1) zp (data_dir_path l) of
                         (Some e, w2) \<Rightarrow> Some (Inl e, w2)
                       | (None, w2) \<Rightarrow>
                           (case os_remove w2 zp of
                              Inl e \<Rightarrow> Some (Inl e, w2)
                            | Inr w3 \<Rightarrow> fetch_ml20m_ratings n c w3 None))
                    else
                      (case url l of
                         None \<Rightarrow> Some (Inl (UnboundLocalError ''url''), py_print ''Downloading data...'' w1)
                       | Some u \<Rightarrow>
                           (case download (py_print ''Downloading data...'' w1) u zp of
                              (Some e, w2) \<Rightarrow> Some (Inl e, w2)
                            | (None, w2) \<Rightarrow> fetch_ml20m_ratings n c w2 None))))"

section \<open>What counts as work\<close>

text \<open>
  The calls that fetch, write, extract or delete. Making the data directory, printing
  and reading the source file are not among them.
\<close>

fun is_work :: "event \<Rightarrow> bool" where
  "is_work (UrlOpen u) = True"
| "is_work (WriteFile p) = True"
| "is_work (ExtractAll z d) = True"
| "is_work (Remove p) = True"
| "is_work e = False"

definition work_done :: "world \<Rightarrow> event list" where
  "work_done w = filter is_work (trace w)"

text \<open>
  The directory the specification names as the target of the extraction:
  \<^verbatim>\<open>directory_path = base/<dataset-dirname>\<close>. The code never computes it on its own; it
  is defined here from the specification's words, to be compared with the directory the
  code hands to \<^verbatim>\<open>extractall\<close>.
\<close>

definition spec_directory_path :: "path \<Rightarrow> path" where
  "spec_directory_path base = os_path_join base dirname"

section \<open>A concrete world\<close>

text \<open>
  Collaborators small enough to evaluate: numbers are decimal numerals, the home
  directory is not expanded, and three archives are known: \<open>''Z1''\<close> holds the ratings
  file, \<open>''Z2''\<close> writes the ratings file and then fails its integrity check, anything
  else is not a zip file.
\<close>

definition digit_val :: "char \<Rightarrow> nat option" where
  "digit_val ch =
     map_of [(CHR ''0'', 0), (CHR ''1'', 1), (CHR ''2'', 2), (CHR ''3'', 3), (CHR ''4'', 4),
             (CHR ''5'', 5), (CHR ''6'', 6), (CHR ''7'', 7), (CHR ''8'', 8), (CHR ''9'', 9)] ch"

fun decimal :: "nat \<Rightarrow> string \<Rightarrow> nat option" where
  "decimal acc [] = Some acc"
| "decimal acc (ch # s) =
     (case digit_val ch of None \<Rightarrow> None | Some v \<Rightarrow> decimal (10 * acc + v) s)"

definition demo_number :: "string \<Rightarrow> nat option" where
  "demo_number s = (if s = [] then None else decimal 0 s)"

text \<open>
  The stand-in for pandas on the demonstration files: lines end at LF, the first is the
  header, every other line is four decimal fields.
\<close>

definition demo_parse_row :: "(string \<Rightarrow> int option) \<Rightarrow> string \<Rightarrow> error + int rating_row" where
  "demo_parse_row dp line =
     (case split_on CHR '','' line of
        [u, i, r, t] \<Rightarrow>
          (case (demo_number u, demo_number i, demo_number r, dp t) of
             (Some u', Some i', Some r', Some t') \<Rightarrow>
               Inr \<lparr>u_id = of_nat u', i_id = of_nat i', rating = int r', timestamp = t'\<rparr>
           | _ \<Rightarrow> Inl ParserError)
      | _ \<Rightarrow> Inl ParserError)"

fun map_result :: "('a \<Rightarrow> error + 'b) \<Rightarrow> 'a list \<Rightarrow> error + 'b list" where
  "map_result f [] = Inr []"
| "map_result f (x # xs) =
     (case f x of
        Inl e \<Rightarrow> Inl e
      | Inr y \<Rightarrow> (case map_result f xs of Inl e \<Rightarrow> Inl e | Inr ys \<Rightarrow> Inr (y # ys)))"

definition demo_read_csv :: "(string \<Rightarrow> int option) \<Rightarrow> bytes \<Rightarrow> error + int df" where
  "demo_read_csv dp b =
     (case filter (\<lambda>l. l \<noteq> []) (split_on (CHR 0x0A) b) of
        [] \<Rightarrow> Inl EmptyDataError
      | header # rows \<Rightarrow>
          (case map_result (demo_parse_row dp) rows of
             Inl e \<Rightarrow> Inl e
           | Inr rs \<Rightarrow> Inr (zip [0..<length rs] rs)))"

definition demo_csv :: bytes where
  "demo_csv = ''u,i,r,t'' @ [CHR 0x0A] @ ''1,2,3,9'' @ [CHR 0x0A] @ ''4,5,6,7'' @ [CHR 0x0A]"

definition demo_unzip :: "bytes \<Rightarrow> (string \<times> bytes) list \<times> error option" where
  "demo_unzip z =
     (if z = ''Z1'' then ([(''ml-20m/ratings.csv'', demo_csv)], None)
      else if z = ''Z2'' then ([(''ml-20m/ratings.csv'', demo_csv)], Some BadZipFile)
      else ([], Some BadZipFile))"

definition demo_collab :: "int collab" where
  "demo_collab =
     \<lparr>expanduser = (\<lambda>s. s),
      unzip = demo_unzip,
      py_float = (\<lambda>s. map_option int (demo_number s)),
      fromtimestamp = (\<lambda>x. Some x),
      pd_read_csv = demo_read_csv\<rparr>"

definition demo_environ :: "string \<rightharpoonup> string" where
  "demo_environ = [''FUNK_SVD_DATA'' \<mapsto> ''/d'']"

text \<open>The three cache states under \<^verbatim>\<open>/d\<close>, and four more with a failing collaborator.\<close>

definition demo_source :: world where
  "demo_source =
     \<lparr>fs = [''/d'' \<mapsto> Dir, ''/d/ml-20m/ratings.csv'' \<mapsto> File demo_csv],
      environ = demo_environ, net = [], trace = []\<rparr>"

definition demo_archive :: world where
  "demo_archive =
     \<lparr>fs = [''/d'' \<mapsto> Dir, ''/d/ml-20m.zip'' \<mapsto> File ''Z1''],
      environ = demo_environ, net = [], trace = []\<rparr>"

definition demo_empty :: world where
  "demo_empty =
     \<lparr>fs = [''/d'' \<mapsto> Dir], environ = demo_environ, net = [Body ''Z1''], trace = []\<rparr>"

definition demo_broken_net :: world where
  "demo_broken_net =
     \<lparr>fs = [''/d'' \<mapsto> Dir], environ = demo_environ, net = [Broken [] ''PK''], trace = []\<rparr>"

definition demo_offline :: world where
  "demo_offline =
     \<lparr>fs = [''/d'' \<mapsto> Dir], environ = demo_environ, net = [ConnFailed], trace = []\<rparr>"

definition demo_not_zip :: world where
  "demo_not_zip =
     \<lparr>fs = [''/d'' \<mapsto> Dir, ''/d/ml-20m.zip'' \<mapsto> File ''PK''],
      environ = demo_environ, net = [], trace = []\<rparr>"

definition demo_bad_archive :: world where
  "demo_bad_archive =
     \<lparr>fs = [''/d'' \<mapsto> Dir, ''/d/ml-20m.zip'' \<mapsto> File ''Z2''],
      environ = demo_environ, net = [], trace = []\<rparr>"

section \<open>Facts about the library calls\<close>

lemma log_event_fields [simp]:
  "fs (log_event e w) = fs w" "environ (log_event e w) = environ w"
  "net (log_event e w) = net w" "trace (log_event e w) = trace w @ [e]"
  by (simp_all add: log_event_def)

lemma py_print_fields [simp]:
  "fs (py_print s w) = fs w" "environ (py_print s w) = environ w"
  "net (py_print s w) = net w" "trace (py_print s w) = trace w @ [Printed s]"
  by (simp_all add: py_print_def)

lemma os_path_join_length:
  "b \<noteq> [] \<Longrightarrow> hd b \<noteq> CHR ''/'' \<Longrightarrow> length a < length (os_path_join a b)"
  by (simp add: os_path_join_def)

lemma os_path_join_last:
  "b \<noteq> [] \<Longrightarrow> last (os_path_join a b) = last b"
  by (simp add: os_path_join_def)

lemma cache_csv_path_longer: "length d < length (cache_csv_path d)"
proof -
  have "length d < length (os_path_join d dirname)"
    by (rule os_path_join_length) (simp_all add: dirname_def)
  also have "\<dots> < length (os_path_join (os_path_join d dirname) filename)"
    by (rule os_path_join_length) (simp_all add: filename_def)
  finally show ?thesis by (simp add: cache_csv_path_def)
qed

lemma cache_zip_path_longer: "length d < length (cache_zip_path d)"
proof -
  have "length d < length (os_path_join d dirname)"
    by (rule os_path_join_length) (simp_all add: dirname_def)
  then show ?thesis by (simp add: cache_zip_path_def)
qed

lemma cache_csv_path_neq_dir [simp]: "cache_csv_path d \<noteq> d" "d \<noteq> cache_csv_path d"
  using cache_csv_path_longer [of d] by auto

lemma cache_zip_path_neq_dir [simp]: "cache_zip_path d \<noteq> d" "d \<noteq> cache_zip_path d"
  using cache_zip_path_longer [of d] by auto

lemma cache_csv_neq_zip [simp]:
  "cache_csv_path d \<noteq> cache_zip_path d" "cache_zip_path d \<noteq> cache_csv_path d"
proof -
  have "last (cache_csv_path d) = CHR ''v''"
    by (simp add: cache_csv_path_def os_path_join_last filename_def)
  moreover have "last (cache_zip_path d) = CHR ''p''"
    by (simp add: cache_zip_path_def)
  ultimately show "cache_csv_path d \<noteq> cache_zip_path d" "cache_zip_path d \<noteq> cache_csv_path d"
    by auto
qed

lemma get_data_dir_path_None:
  assumes "get_data_dir_path c w None = Inr (d, w1)"
  shows "d = default_data_dir c w" "environ w1 = environ w" "net w1 = net w"
    "fs w1 d \<noteq> None" "\<And>q. q \<noteq> d \<Longrightarrow> fs w1 q = fs w q"
    "work_done w1 = work_done w"
    "fs w d \<noteq> None \<Longrightarrow> w1 = w"
  using assms
  by (auto simp: get_data_dir_path_def os_makedirs_def os_path_exists_def Let_def work_done_def
      split: if_splits)

lemma bind_locals_None:
  assumes "bind_locals c w None = Inr (l, w1)"
  shows "get_data_dir_path c w None = Inr (default_data_dir c w, w1)"
    "l = \<lparr>data_dir_path = default_data_dir c w,
          csv_path = cache_csv_path (default_data_dir c w),
          zip_path = Some (cache_zip_path (default_data_dir c w)),
          url = Some ml20m_url\<rparr>"
  using assms get_data_dir_path_None(1) [of c w]
  by (auto simp: bind_locals_def split: sum.splits)

lemma default_data_dir_cong: "environ w2 = environ w \<Longrightarrow> default_data_dir c w2 = default_data_dir c w"
  by (simp add: default_data_dir_def)

lemma write_members_keeps: "m q \<noteq> None \<Longrightarrow> write_members dir ms m q \<noteq> None"
  by (induction dir ms m rule: write_members.induct) auto

lemma write_members_split:
  "write_members dir ms m q =
     (case write_members dir ms Map.empty q of None \<Rightarrow> m q | Some v \<Rightarrow> Some v)"
proof (induction ms arbitrary: m)
  case Nil
  then show ?case by simp
next
  case (Cons x ms)
  obtain name b where x: "x = (name, b)" by (cases x)
  let ?p = "os_path_join dir name"
  have 1: "write_members dir ms (m(?p \<mapsto> File b)) q =
      (case write_members dir ms Map.empty q of None \<Rightarrow> (m(?p \<mapsto> File b)) q | Some v \<Rightarrow> Some v)"
    by (rule Cons.IH)
  have 2: "write_members dir ms (Map.empty(?p \<mapsto> File b)) q =
      (case write_members dir ms Map.empty q of
         None \<Rightarrow> (Map.empty(?p \<mapsto> File b)) q | Some v \<Rightarrow> Some v)"
    by (rule Cons.IH)
  show ?case
    unfolding x write_members.simps 1 2
    by (cases "write_members dir ms Map.empty q") simp_all
qed

lemma write_members_override:
  "write_members dir ms Map.empty q = Some v \<Longrightarrow> write_members dir ms m q = Some v"
  by (simp add: write_members_split [of dir ms m q])

lemma write_members_file_or_old:
  "write_members dir ms m q = m q \<or> (\<exists>b. write_members dir ms m q = Some (File b))"
proof (induction ms arbitrary: m)
  case Nil
  then show ?case by simp
next
  case (Cons x ms)
  obtain name b where x: "x = (name, b)" by (cases x)
  let ?p = "os_path_join dir name"
  have "write_members dir ms (m(?p \<mapsto> File b)) q = (m(?p \<mapsto> File b)) q
      \<or> (\<exists>b'. write_members dir ms (m(?p \<mapsto> File b)) q = Some (File b'))"
    by (rule Cons.IH)
  then show ?case
    unfolding x write_members.simps
    by (cases "q = ?p") auto
qed

lemma zip_extractall_effect:
  assumes "zip_extractall c w zp d = (e, w2)"
  shows "environ w2 = environ w" "net w2 = net w" "trace w2 = trace w @ [ExtractAll zp d]"
    "\<And>q. fs w q \<noteq> None \<Longrightarrow> fs w2 q \<noteq> None"
    "\<And>b. fs w zp = Some (File b) \<Longrightarrow> \<exists>b'. fs w2 zp = Some (File b')"
  using assms write_members_keeps write_members_file_or_old [of d _ "fs w" zp]
  apply (auto simp: zip_extractall_def Let_def split: option.splits node.splits prod.splits)
  apply metis
  done

lemma os_remove_effect:
  assumes "os_remove w p = Inr w3"
  shows "environ w3 = environ w" "net w3 = net w" "trace w3 = trace w @ [Remove p]"
    "fs w3 = (fs w)(p := None)"
  using assms by (auto simp: os_remove_def split: option.splits node.splits)

lemma download_effect:
  assumes "download w u zp = (e, w2)"
  shows "environ w2 = environ w" "\<And>q. q \<noteq> zp \<Longrightarrow> fs w2 q = fs w q"
    "e = None \<Longrightarrow> fs w2 zp \<noteq> None"
  using assms
  by (auto simp: download_def Let_def split: list.splits response.splits if_splits)

lemma fetch_source_ready:
  assumes "bind_locals c w arg = Inr (l, w1)" "fs w1 (csv_path l) \<noteq> None"
  shows "fetch_ml20m_ratings (Suc n) c w arg = Some (ml20m_ratings_csv_to_df c w1 (csv_path l))"
  using assms by (simp add: os_path_exists_def)

lemma fetch_archive_ready:
  assumes "bind_locals c w None = Inr (l, w1)" "fs w1 (csv_path l) = None"
    "zip_path l = Some zp" "fs w1 zp \<noteq> None"
  shows "fetch_ml20m_ratings (Suc n) c w None =
     (case zip_extractall c (py_print ''Unzipping data...'' w1) zp (data_dir_path l) of
        (Some e, w2) \<Rightarrow> Some (Inl e, w2)
      | (None, w2) \<Rightarrow>
          (case os_remove w2 zp of
             Inl e \<Rightarrow> Some (Inl e, w2)
           | Inr w3 \<Rightarrow> fetch_ml20m_ratings n c w3 None))"
  using assms by (simp add: os_path_exists_def)

lemma fetch_empty:
  assumes "bind_locals c w None = Inr (l, w1)" "fs w1 (csv_path l) = None"
    "zip_path l = Some zp" "fs w1 zp = None"
  shows "fetch_ml20m_ratings (Suc n) c w None =
     (case download (py_print ''Downloading data...'' w1) ml20m_url zp of
        (Some e, w2) \<Rightarrow> Some (Inl e, w2)
      | (None, w2) \<Rightarrow> fetch_ml20m_ratings n c w2 None)"
  using assms bind_locals_None(2) [OF assms(1)] by (simp add: os_path_exists_def)

section \<open>Unfolding the model on concrete worlds\<close>

lemmas model_defs =
  bind_locals_def get_data_dir_path_def default_data_dir_def os_path_exists_def os_makedirs_def
  cache_csv_path_def cache_zip_path_def os_path_join_def dirname_def filename_def
  py_print_def log_event_def download_def zip_extractall_def os_remove_def
  ml20m_ratings_csv_to_df_def csv_bytes_to_df_def read_csv_def date_parser_def
  header_only_file_def header_line_def header_label_def header_char_def strip_eol_def
  sort_values_def reset_index_def work_done_def spec_directory_path_def Let_def

lemmas demo_defs =
  demo_collab_def demo_environ_def demo_unzip_def demo_csv_def demo_number_def digit_val_def
  demo_read_csv_def demo_parse_row_def
  demo_source_def demo_archive_def demo_empty_def demo_broken_net_def demo_bad_archive_def
  demo_offline_def demo_not_zip_def

section \<open>Override mode\<close>

text \<open>
  C10. A call with an explicit path that does not exist raises the error of reading the
  unassigned local \<^verbatim>\<open>zip_path\<close>, in its first activation, with the world untouched:
  no directory made, nothing printed, no request sent, nothing extracted, and no second
  activation in the cache-resolution mode.
\<close>

theorem override_missing_path_unbound_zip_path:
  "\<not> os_path_exists w p \<Longrightarrow>
   fetch_ml20m_ratings (Suc n) c w (Some p) = Some (Inl (UnboundLocalError ''zip_path''), w)"
  by (simp add: bind_locals_def)

theorem override_missing_path_unbound_zip_path_witness:
  "\<not> os_path_exists demo_source ''/x.csv'' \<and>
   fetch_ml20m_ratings (Suc 0) demo_collab demo_source (Some ''/x.csv'') =
     Some (Inl (UnboundLocalError ''zip_path''), demo_source)"
  using override_missing_path_unbound_zip_path [of demo_source "''/x.csv''" 0 demo_collab]
  by (simp add: os_path_exists_def demo_source_def)

text \<open>
  C1 (as amended). In override mode the supplied path is tested with \<^verbatim>\<open>os.path.exists\<close>
  first. When it exists the function goes straight to the loader on that path: no data
  directory is resolved, nothing is fetched, extracted or deleted, and the result,
  table or load error, is the loader's.
\<close>

theorem override_existing_path_is_parsed:
  "os_path_exists w p \<Longrightarrow>
   fetch_ml20m_ratings (Suc n) c w (Some p) = Some (ml20m_ratings_csv_to_df c w p)"
  by (simp add: bind_locals_def)

theorem override_existing_path_is_parsed_witness:
  "os_path_exists demo_source ''/d/ml-20m/ratings.csv'' \<and>
   fetch_ml20m_ratings (Suc 0) demo_collab demo_source (Some ''/d/ml-20m/ratings.csv'') =
     Some (ml20m_ratings_csv_to_df demo_collab demo_source ''/d/ml-20m/ratings.csv'')"
  using override_existing_path_is_parsed [of demo_source "''/d/ml-20m/ratings.csv''" 0 demo_collab]
  by (simp add: os_path_exists_def demo_source_def)

text \<open>
  The claim as written, no existence check and the loader's error for every path,
  fails on a path that is not there: the loader is never called.
\<close>

theorem override_checks_existence_counterexample:
  "fetch_ml20m_ratings (Suc 0) demo_collab demo_empty (Some ''/x.csv'') =
     Some (Inl (UnboundLocalError ''zip_path''), demo_empty) \<and>
   fetch_ml20m_ratings (Suc 0) demo_collab demo_empty (Some ''/x.csv'') \<noteq>
     Some (ml20m_ratings_csv_to_df demo_collab demo_empty ''/x.csv'')"
  by (simp add: bind_locals_def os_path_exists_def demo_empty_def ml20m_ratings_csv_to_df_def)

section \<open>A failing download\<close>

text \<open>
  C2 (as amended). In the empty cache state, a fetch that fails at connection time
  leaves the file system as it was before the download branch ran, with no archive; a
  fetch that fails while the body is streamed leaves a file at the archive path, which
  holds the blocks whose reads had returned before the failing one, and is empty when
  the first read fails.
\<close>

theorem failed_fetch_archive_state:
  assumes "bind_locals c w None = Inr (l, w1)" and "\<not> os_path_exists w1 (csv_path l)"
    and "zip_path l = Some zp" and "\<not> os_path_exists w1 zp"
  shows "((net w = [] \<or> net w = ConnFailed # rs) \<longrightarrow>
            (\<exists>w'. fetch_ml20m_ratings (Suc n) c w None = Some (Inl URLError, w') \<and> fs w' = fs w1)) \<and>
         (net w = Broken written partial # rs \<longrightarrow>
            (\<exists>w'. fetch_ml20m_ratings (Suc n) c w None = Some (Inl (IncompleteRead partial), w') \<and>
                  fs w' = (fs w1)(zp \<mapsto> File written)))"
proof -
  have step: "fetch_ml20m_ratings (Suc n) c w None =
     (case download (py_print ''Downloading data...'' w1) ml20m_url zp of
        (Some e, w2) \<Rightarrow> Some (Inl e, w2)
      | (None, w2) \<Rightarrow> fetch_ml20m_ratings n c w2 None)"
    using assms by (intro fetch_empty) (simp_all add: os_path_exists_def)
  have net: "net w1 = net w"
    using get_data_dir_path_None(3) [OF bind_locals_None(1) [OF assms(1)]] .
  have nodir: "fs w1 zp \<noteq> Some Dir"
    using assms(4) by (simp add: os_path_exists_def)
  show ?thesis
    unfolding step using net nodir
    by (auto simp: download_def Let_def)
qed

theorem failed_fetch_archive_state_witness:
  "bind_locals demo_collab demo_offline None =
     Inr (\<lparr>data_dir_path = ''/d'', csv_path = ''/d/ml-20m/ratings.csv'',
           zip_path = Some ''/d/ml-20m.zip'', url = Some ml20m_url\<rparr>, demo_offline) \<and>
   bind_locals demo_collab demo_broken_net None =
     Inr (\<lparr>data_dir_path = ''/d'', csv_path = ''/d/ml-20m/ratings.csv'',
           zip_path = Some ''/d/ml-20m.zip'', url = Some ml20m_url\<rparr>, demo_broken_net) \<and>
   \<not> os_path_exists demo_offline ''/d/ml-20m/ratings.csv'' \<and>
   \<not> os_path_exists demo_offline ''/d/ml-20m.zip'' \<and>
   \<not> os_path_exists demo_broken_net ''/d/ml-20m/ratings.csv'' \<and>
   \<not> os_path_exists demo_broken_net ''/d/ml-20m.zip'' \<and>
   net demo_offline = [ConnFailed] \<and> net demo_broken_net = [Broken [] ''PK''] \<and>
   fst (the (fetch_ml20m_ratings (Suc 0) demo_collab demo_offline None)) = Inl URLError \<and>
   fs (snd (the (fetch_ml20m_ratings (Suc 0) demo_collab demo_offline None))) = fs demo_offline \<and>
   fst (the (fetch_ml20m_ratings (Suc 0) demo_collab demo_broken_net None)) =
     Inl (IncompleteRead ''PK'') \<and>
   fs (snd (the (fetch_ml20m_ratings (Suc 0) demo_collab demo_broken_net None))) =
     (fs demo_broken_net)(''/d/ml-20m.zip'' \<mapsto> File [])"
proof -
  let ?l = "\<lparr>data_dir_path = ''/d'', csv_path = ''/d/ml-20m/ratings.csv'',
            zip_path = Some ''/d/ml-20m.zip'', url = Some ml20m_url\<rparr>"
  have a1: "bind_locals demo_collab demo_offline None = Inr (?l, demo_offline)"
    by (simp add: model_defs demo_defs)
  have b1: "bind_locals demo_collab demo_broken_net None = Inr (?l, demo_broken_net)"
    by (simp add: model_defs demo_defs)
  have a2: "\<not> os_path_exists demo_offline (csv_path ?l)"
    and a3: "\<not> os_path_exists demo_offline ''/d/ml-20m.zip''"
    and a4: "net demo_offline = [ConnFailed]"
    by (simp_all add: os_path_exists_def demo_offline_def)
  have b2: "\<not> os_path_exists demo_broken_net (csv_path ?l)"
    and b3: "\<not> os_path_exists demo_broken_net ''/d/ml-20m.zip''"
    and b4: "net demo_broken_net = [Broken [] ''PK'']"
    by (simp_all add: os_path_exists_def demo_broken_net_def)
  have z: "zip_path ?l = Some ''/d/ml-20m.zip''"
    by simp
  show ?thesis
    using failed_fetch_archive_state [OF a1 a2 z a3, of "[]" 0 "[]" "''PK''"]
      failed_fetch_archive_state [OF b1 b2 z b3, of "[]" 0 "[]" "''PK''"]
      a1 b1 a2 a3 a4 b2 b3 b4
    by auto
qed

text \<open>
  The claim as written, no partial archive after any failing fetch and the cache as
  before, fails when the stream breaks in its first read, two bytes received: the
  archive path, absent before, holds an empty file.
\<close>

theorem failed_fetch_leaves_partial_archive_counterexample:
  "fs demo_broken_net ''/d/ml-20m.zip'' = None \<and>
   fetch_ml20m_ratings (Suc 0) demo_collab demo_broken_net None \<noteq> None \<and>
   fst (the (fetch_ml20m_ratings (Suc 0) demo_collab demo_broken_net None)) =
     Inl (IncompleteRead ''PK'') \<and>
   fs (snd (the (fetch_ml20m_ratings (Suc 0) demo_collab demo_broken_net None))) ''/d/ml-20m.zip'' =
     Some (File [])"
  by (simp add: model_defs demo_defs)

section \<open>The loading adapter\<close>

lemma reset_index_labels: "map fst (reset_index d) = [0..<length (reset_index d)]"
  by (simp add: reset_index_def)

lemma reset_index_rows: "map snd (reset_index d) = map snd d"
  by (simp add: reset_index_def)

lemma sort_values_sorted: "sorted (map (\<lambda>(i, r). timestamp r) (sort_values d))"
  by (simp add: sort_values_def)

lemma sort_values_mset: "mset (sort_values d) = mset d"
  by (simp add: sort_values_def)

lemma timestamps_of_rows: "map (\<lambda>(i, r). timestamp r) d = map timestamp (map snd d)"
  by (simp add: case_prod_unfold)

lemma ml20m_ratings_csv_to_df_Inr:
  assumes "ml20m_ratings_csv_to_df c w p = (Inr d, w')"
  obtains b rows where "fs w p = Some (File b)" "read_csv c b = Inr rows"
    "d = reset_index (sort_values rows)"
  using assms
  by (auto simp: ml20m_ratings_csv_to_df_def csv_bytes_to_df_def Let_def
      split: option.splits node.splits sum.splits)

lemma loaded_table_is_permutation:
  assumes "ml20m_ratings_csv_to_df c w p = (Inr d, w')"
  shows "\<exists>b rows. fs w p = Some (File b) \<and> read_csv c b = Inr rows \<and>
           mset (map snd d) = mset (map snd rows)"
proof -
  obtain b rows where *: "fs w p = Some (File b)" "read_csv c b = Inr rows"
    "d = reset_index (sort_values rows)"
    using assms by (rule ml20m_ratings_csv_to_df_Inr)
  have "mset (map snd d) = image_mset snd (mset (sort_values rows))"
    by (simp add: *(3) reset_index_rows)
  also have "\<dots> = mset (map snd rows)"
    by (simp add: sort_values_mset)
  finally show ?thesis using * by blast
qed

text \<open>
  C3. Whatever the order of the rows in the file, a table the loader returns is sorted
  by ascending timestamp and its index labels are \<open>0, 1, 2, \<dots>\<close> without a gap.
\<close>

theorem loaded_table_sorted_and_indexed:
  assumes "ml20m_ratings_csv_to_df c w p = (Inr d, w')"
  shows "sorted (map (\<lambda>(i, r). timestamp r) d) \<and> map fst d = [0..<length d]"
proof -
  obtain b rows where *: "d = reset_index (sort_values rows)"
    using assms by (rule ml20m_ratings_csv_to_df_Inr)
  have "map (\<lambda>(i, r). timestamp r) d = map timestamp (map snd d)"
    by (rule timestamps_of_rows)
  also have "\<dots> = map timestamp (map snd (sort_values rows))"
    unfolding * reset_index_rows ..
  also have "\<dots> = map (\<lambda>(i, r). timestamp r) (sort_values rows)"
    by (rule timestamps_of_rows [symmetric])
  finally have "sorted (map (\<lambda>(i, r). timestamp r) d)"
    by (simp only: sort_values_sorted)
  moreover have "map fst d = [0..<length d]"
    unfolding * by (rule reset_index_labels)
  ultimately show ?thesis by simp
qed

theorem loaded_table_sorted_and_indexed_witness:
  "ml20m_ratings_csv_to_df demo_collab demo_source ''/d/ml-20m/ratings.csv'' =
     (Inr [(0, \<lparr>u_id = 4, i_id = 5, rating = 6, timestamp = 7\<rparr>),
           (1, \<lparr>u_id = 1, i_id = 2, rating = 3, timestamp = 9\<rparr>)],
      demo_source\<lparr>trace := [ReadCsv ''/d/ml-20m/ratings.csv'']\<rparr>) \<and>
   sorted (map (\<lambda>(i, r). timestamp r)
     [(0::nat, \<lparr>u_id = 4, i_id = 5, rating = 6::int, timestamp = 7\<rparr>),
      (1, \<lparr>u_id = 1, i_id = 2, rating = 3, timestamp = 9\<rparr>)]) \<and>
   map fst [(0::nat, \<lparr>u_id = 4, i_id = 5, rating = 6::int, timestamp = 7\<rparr>),
            (1, \<lparr>u_id = 1, i_id = 2, rating = 3, timestamp = 9\<rparr>)] = [0, 1]"
proof -
  have 1: "ml20m_ratings_csv_to_df demo_collab demo_source ''/d/ml-20m/ratings.csv'' =
     (Inr [(0, \<lparr>u_id = 4, i_id = 5, rating = 6, timestamp = 7\<rparr>),
           (1, \<lparr>u_id = 1, i_id = 2, rating = 3, timestamp = 9\<rparr>)],
      demo_source\<lparr>trace := [ReadCsv ''/d/ml-20m/ratings.csv'']\<rparr>)"
    by (simp add: model_defs demo_defs)
  show ?thesis
    using loaded_table_sorted_and_indexed [OF 1] 1 by simp
qed



section \<open>The archive branch\<close>

lemma fetch_archive_ready_step:
  assumes "bind_locals c w None = Inr (l, w1)" and "\<not> os_path_exists w1 (csv_path l)"
    and "zip_path l = Some zp" and "fs w1 zp = Some (File z)" and "unzip c z = (ms, None)"
  shows "data_dir_path l = default_data_dir c w \<and>
         fetch_ml20m_ratings (Suc n) c w None =
           fetch_ml20m_ratings n c
             (w1\<lparr>fs := (write_members (data_dir_path l) ms (fs w1))(zp := None),
                 trace := trace w1 @ [Printed ''Unzipping data...'',
                                      ExtractAll zp (data_dir_path l), Remove zp]\<rparr>) None"
proof -
  let ?d = "data_dir_path l"
  let ?w0 = "py_print ''Unzipping data...'' w1"
  let ?w2 = "log_event (ExtractAll zp ?d) ?w0\<lparr>fs := write_members ?d ms (fs w1)\<rparr>"
  have d: "?d = default_data_dir c w"
    using bind_locals_None(2) [OF assms(1)] by simp
  have ex: "zip_extractall c ?w0 zp ?d = (None, ?w2)"
    using assms(4,5) by (simp add: zip_extractall_def Let_def)
  obtain b where b: "fs ?w2 zp = Some (File b)"
    using write_members_file_or_old [of ?d ms "fs w1" zp] assms(4) by auto
  have rm: "os_remove ?w2 zp = Inr (log_event (Remove zp) (?w2\<lparr>fs := (fs ?w2)(zp := None)\<rparr>))"
    using b by (simp add: os_remove_def)
  have "fetch_ml20m_ratings (Suc n) c w None =
        fetch_ml20m_ratings n c (log_event (Remove zp) (?w2\<lparr>fs := (fs ?w2)(zp := None)\<rparr>)) None"
    using fetch_archive_ready [OF assms(1) _ assms(3), of n] assms(2,4) ex rm
    by (simp add: os_path_exists_def)
  also have "log_event (Remove zp) (?w2\<lparr>fs := (fs ?w2)(zp := None)\<rparr>) =
      w1\<lparr>fs := (write_members ?d ms (fs w1))(zp := None),
         trace := trace w1 @ [Printed ''Unzipping data...'', ExtractAll zp ?d, Remove zp]\<rparr>"
    by (simp add: log_event_def py_print_def)
  finally show ?thesis using d by simp
qed

text \<open>
  C6 (as amended). In the archive state, with an archive that decodes without error,
  the activation prints, extracts the members into \<^verbatim>\<open>data_dir_path\<close>, the data
  directory itself, then deletes the archive, then calls itself with no argument: the
  paths are computed and the cache is tested afresh in the world so changed.
\<close>

theorem archive_ready_extracts_into_data_dir:
  assumes "bind_locals c w None = Inr (l, w1)" and "\<not> os_path_exists w1 (csv_path l)"
    and "zip_path l = Some zp" and "fs w1 zp = Some (File z)" and "unzip c z = (ms, None)"
  shows "data_dir_path l = default_data_dir c w \<and>
         fetch_ml20m_ratings (Suc n) c w None =
           fetch_ml20m_ratings n c
             (w1\<lparr>fs := (write_members (data_dir_path l) ms (fs w1))(zp := None),
                 trace := trace w1 @ [Printed ''Unzipping data...'',
                                      ExtractAll zp (data_dir_path l), Remove zp]\<rparr>) None"
  using assms by (rule fetch_archive_ready_step)

theorem archive_ready_extracts_into_data_dir_witness:
  "bind_locals demo_collab demo_archive None =
     Inr (\<lparr>data_dir_path = ''/d'', csv_path = ''/d/ml-20m/ratings.csv'',
           zip_path = Some ''/d/ml-20m.zip'', url = Some ml20m_url\<rparr>, demo_archive) \<and>
   \<not> os_path_exists demo_archive ''/d/ml-20m/ratings.csv'' \<and>
   fs demo_archive ''/d/ml-20m.zip'' = Some (File ''Z1'') \<and>
   unzip demo_collab ''Z1'' = ([(''ml-20m/ratings.csv'', demo_csv)], None) \<and>
   fetch_ml20m_ratings (Suc (Suc 0)) demo_collab demo_archive None =
     fetch_ml20m_ratings (Suc 0) demo_collab
       (demo_archive\<lparr>fs := (write_members ''/d'' [(''ml-20m/ratings.csv'', demo_csv)] (fs demo_archive))
                             (''/d/ml-20m.zip'' := None),
                     trace := trace demo_archive @ [Printed ''Unzipping data...'',
                                ExtractAll ''/d/ml-20m.zip'' ''/d'', Remove ''/d/ml-20m.zip'']\<rparr>) None"
proof -
  let ?l = "\<lparr>data_dir_path = ''/d'', csv_path = ''/d/ml-20m/ratings.csv'',
            zip_path = Some ''/d/ml-20m.zip'', url = Some ml20m_url\<rparr>"
  have 1: "bind_locals demo_collab demo_archive None = Inr (?l, demo_archive)"
    by (simp add: model_defs demo_defs)
  have 2: "\<not> os_path_exists demo_archive (csv_path ?l)"
    by (simp add: os_path_exists_def demo_archive_def)
  have 3: "zip_path ?l = Some ''/d/ml-20m.zip''"
    by simp
  have 4: "fs demo_archive ''/d/ml-20m.zip'' = Some (File ''Z1'')"
    by (simp add: demo_archive_def)
  have 5: "unzip demo_collab ''Z1'' = ([(''ml-20m/ratings.csv'', demo_csv)], None)"
    by (simp add: demo_collab_def demo_unzip_def)
  have absent: "\<not> os_path_exists demo_archive ''/d/ml-20m/ratings.csv''"
    using 2 by simp
  note step = archive_ready_extracts_into_data_dir [OF 1 2 3 4 5, of "Suc 0",
      unfolded locals.select_convs, THEN conjunct2]
  show ?thesis
    using 1 absent 4 5 step by blast
qed

text \<open>
  The claim as written has the members extracted into \<open>directory_path\<close>, the
  directory \<^verbatim>\<open>ml-20m\<close> under the data directory. The member \<^verbatim>\<open>ml-20m/ratings.csv\<close> does
  not land under that directory but under the data directory.
\<close>

theorem extraction_not_into_directory_path_counterexample:
  "spec_directory_path (default_data_dir demo_collab demo_archive) = ''/d/ml-20m'' \<and>
   fetch_ml20m_ratings (Suc (Suc 0)) demo_collab demo_archive None \<noteq> None \<and>
   fs (snd (the (fetch_ml20m_ratings (Suc (Suc 0)) demo_collab demo_archive None)))
      (os_path_join ''/d/ml-20m'' ''ml-20m/ratings.csv'') = None \<and>
   fs (snd (the (fetch_ml20m_ratings (Suc (Suc 0)) demo_collab demo_archive None)))
      (os_path_join ''/d'' ''ml-20m/ratings.csv'') = Some (File demo_csv) \<and>
   ExtractAll ''/d/ml-20m.zip'' ''/d''
     \<in> set (trace (snd (the (fetch_ml20m_ratings (Suc (Suc 0)) demo_collab demo_archive None)))) \<and>
   ExtractAll ''/d/ml-20m.zip'' ''/d/ml-20m''
     \<notin> set (trace (snd (the (fetch_ml20m_ratings (Suc (Suc 0)) demo_collab demo_archive None))))"
  by (simp add: model_defs demo_defs)

lemma bind_locals_None_exists:
  assumes "fs w (default_data_dir c w) \<noteq> None"
  shows "bind_locals c w None =
     Inr (\<lparr>data_dir_path = default_data_dir c w,
           csv_path = cache_csv_path (default_data_dir c w),
           zip_path = Some (cache_zip_path (default_data_dir c w)),
           url = Some ml20m_url\<rparr>, w)"
  using assms by (auto simp: bind_locals_def get_data_dir_path_def os_path_exists_def Let_def)

text \<open>
  C8 (as amended). When the extraction raises, the activation ends with that error and
  the archive is still at its path: nothing was removed after the call to
  \<^verbatim>\<open>extractall\<close>. A retried call extracts the archive again whenever the failed
  extraction left no file at the source path.
\<close>

theorem failed_extraction_keeps_archive:
  assumes "bind_locals c w None = Inr (l, w1)" and "\<not> os_path_exists w1 (csv_path l)"
    and "zip_path l = Some zp" and "os_path_exists w1 zp"
    and "zip_extractall c (py_print ''Unzipping data...'' w1) zp (data_dir_path l) = (Some e, w2)"
  shows "fetch_ml20m_ratings (Suc n) c w None = Some (Inl e, w2) \<and>
         os_path_exists w2 zp \<and>
         trace w2 = trace w1 @ [Printed ''Unzipping data...'', ExtractAll zp (data_dir_path l)] \<and>
         (\<not> os_path_exists w2 (csv_path l) \<longrightarrow>
            fetch_ml20m_ratings (Suc m) c w2 None =
              (case zip_extractall c (py_print ''Unzipping data...'' w2) zp (data_dir_path l) of
                 (Some e', w3) \<Rightarrow> Some (Inl e', w3)
               | (None, w3) \<Rightarrow>
                   (case os_remove w3 zp of
                      Inl e' \<Rightarrow> Some (Inl e', w3)
                    | Inr w4 \<Rightarrow> fetch_ml20m_ratings m c w4 None)))"
proof -
  let ?d = "default_data_dir c w"
  let ?w0 = "py_print ''Unzipping data...'' w1"
  note l = bind_locals_None(2) [OF assms(1)]
  note g = get_data_dir_path_None [OF bind_locals_None(1) [OF assms(1)]]
  note x = zip_extractall_effect [OF assms(5)]
  have first: "fetch_ml20m_ratings (Suc n) c w None = Some (Inl e, w2)"
    using fetch_archive_ready [OF assms(1) _ assms(3), of n] assms(2,4,5)
    by (simp add: os_path_exists_def)
  have still: "os_path_exists w2 zp"
    using x(4) [of zp] assms(4) by (simp add: os_path_exists_def)
  have tr: "trace w2 = trace w1 @ [Printed ''Unzipping data...'', ExtractAll zp (data_dir_path l)]"
    using x(3) by simp
  have retry: "fetch_ml20m_ratings (Suc m) c w2 None =
      (case zip_extractall c (py_print ''Unzipping data...'' w2) zp (data_dir_path l) of
         (Some e', w3) \<Rightarrow> Some (Inl e', w3)
       | (None, w3) \<Rightarrow>
           (case os_remove w3 zp of
              Inl e' \<Rightarrow> Some (Inl e', w3)
            | Inr w4 \<Rightarrow> fetch_ml20m_ratings m c w4 None))"
    if absent: "\<not> os_path_exists w2 (csv_path l)"
  proof -
    have env: "environ w2 = environ w"
      using x(1) g(2) by simp
    have d2: "default_data_dir c w2 = ?d"
      using env by (rule default_data_dir_cong)
    have "fs w2 ?d \<noteq> None"
      using x(4) [of ?d] g(4) by simp
    then have bl: "bind_locals c w2 None = Inr (l, w2)"
      using bind_locals_None_exists [of w2 c] d2 l by simp
    show ?thesis
      using fetch_archive_ready [OF bl _ assms(3), of m] absent still
      by (simp add: os_path_exists_def)
  qed
  show ?thesis
    using first still tr retry by blast
qed

theorem failed_extraction_keeps_archive_witness:
  "bind_locals demo_collab demo_not_zip None =
     Inr (\<lparr>data_dir_path = ''/d'', csv_path = ''/d/ml-20m/ratings.csv'',
           zip_path = Some ''/d/ml-20m.zip'', url = Some ml20m_url\<rparr>, demo_not_zip) \<and>
   \<not> os_path_exists demo_not_zip ''/d/ml-20m/ratings.csv'' \<and>
   os_path_exists demo_not_zip ''/d/ml-20m.zip'' \<and>
   zip_extractall demo_collab (py_print ''Unzipping data...'' demo_not_zip) ''/d/ml-20m.zip'' ''/d'' =
     (Some BadZipFile,
      demo_not_zip\<lparr>trace := [Printed ''Unzipping data...'', ExtractAll ''/d/ml-20m.zip'' ''/d'']\<rparr>) \<and>
   \<not> os_path_exists
       (demo_not_zip\<lparr>trace := [Printed ''Unzipping data...'', ExtractAll ''/d/ml-20m.zip'' ''/d'']\<rparr>)
       ''/d/ml-20m/ratings.csv'' \<and>
   fetch_ml20m_ratings (Suc 0) demo_collab demo_not_zip None =
     Some (Inl BadZipFile,
           demo_not_zip\<lparr>trace := [Printed ''Unzipping data...'', ExtractAll ''/d/ml-20m.zip'' ''/d'']\<rparr>) \<and>
   os_path_exists
     (demo_not_zip\<lparr>trace := [Printed ''Unzipping data...'', ExtractAll ''/d/ml-20m.zip'' ''/d'']\<rparr>)
     ''/d/ml-20m.zip'' \<and>
   fetch_ml20m_ratings (Suc 0) demo_collab
     (demo_not_zip\<lparr>trace := [Printed ''Unzipping data...'', ExtractAll ''/d/ml-20m.zip'' ''/d'']\<rparr>) None =
     Some (Inl BadZipFile,
           demo_not_zip\<lparr>trace := [Printed ''Unzipping data...'', ExtractAll ''/d/ml-20m.zip'' ''/d'',
                                   Printed ''Unzipping data...'', ExtractAll ''/d/ml-20m.zip'' ''/d'']\<rparr>)"
proof -
  let ?l = "\<lparr>data_dir_path = ''/d'', csv_path = ''/d/ml-20m/ratings.csv'',
            zip_path = Some ''/d/ml-20m.zip'', url = Some ml20m_url\<rparr>"
  let ?w2 = "demo_not_zip\<lparr>trace := [Printed ''Unzipping data...'', ExtractAll ''/d/ml-20m.zip'' ''/d'']\<rparr>"
  have 1: "bind_locals demo_collab demo_not_zip None = Inr (?l, demo_not_zip)"
    by (simp add: model_defs demo_defs)
  have 2: "\<not> os_path_exists demo_not_zip (csv_path ?l)"
    by (simp add: os_path_exists_def demo_not_zip_def)
  have 3: "zip_path ?l = Some ''/d/ml-20m.zip''"
    by simp
  have 4: "os_path_exists demo_not_zip ''/d/ml-20m.zip''"
    by (simp add: os_path_exists_def demo_not_zip_def)
  have 5: "zip_extractall demo_collab (py_print ''Unzipping data...'' demo_not_zip) ''/d/ml-20m.zip''
             (data_dir_path ?l) = (Some BadZipFile, ?w2)"
    by (simp add: model_defs demo_defs)
  have 6: "\<not> os_path_exists ?w2 ''/d/ml-20m/ratings.csv''"
    by (simp add: os_path_exists_def demo_not_zip_def)
  have 7: "zip_extractall demo_collab (py_print ''Unzipping data...'' ?w2) ''/d/ml-20m.zip''
             (data_dir_path ?l) =
           (Some BadZipFile,
            demo_not_zip\<lparr>trace := [Printed ''Unzipping data...'', ExtractAll ''/d/ml-20m.zip'' ''/d'',
                                    Printed ''Unzipping data...'', ExtractAll ''/d/ml-20m.zip'' ''/d'']\<rparr>)"
    by (simp add: model_defs demo_defs)
  have absent: "\<not> os_path_exists ?w2 (csv_path ?l)"
    using 6 by simp
  note concl = failed_extraction_keeps_archive [OF 1 2 3 4 5, of 0 0]
  have retry: "fetch_ml20m_ratings (Suc 0) demo_collab ?w2 None =
      Some (Inl BadZipFile,
            demo_not_zip\<lparr>trace := [Printed ''Unzipping data...'', ExtractAll ''/d/ml-20m.zip'' ''/d'',
                                    Printed ''Unzipping data...'', ExtractAll ''/d/ml-20m.zip'' ''/d'']\<rparr>)"
    using concl absent unfolding 7 by simp
  have first: "fetch_ml20m_ratings (Suc 0) demo_collab demo_not_zip None = Some (Inl BadZipFile, ?w2)"
    and still: "os_path_exists ?w2 ''/d/ml-20m.zip''"
    using concl by simp_all
  have 2: "\<not> os_path_exists demo_not_zip ''/d/ml-20m/ratings.csv''"
    using 2 by simp
  have 5: "zip_extractall demo_collab (py_print ''Unzipping data...'' demo_not_zip) ''/d/ml-20m.zip'' ''/d'' =
      (Some BadZipFile, ?w2)"
    using 5 by simp
  show ?thesis
    using 1 2 4 5 6 first still retry by blast
qed

text \<open>
  The claim as written has every retried call extract again. An archive whose ratings
  member is written before the integrity check fails leaves the source file behind: the
  retried call loads it and never opens the archive.
\<close>

theorem retry_after_partial_extraction_counterexample:
  "os_path_exists demo_bad_archive ''/d/ml-20m.zip'' \<and>
   \<not> os_path_exists demo_bad_archive ''/d/ml-20m/ratings.csv'' \<and>
   fetch_ml20m_ratings (Suc 0) demo_collab demo_bad_archive None \<noteq> None \<and>
   fst (the (fetch_ml20m_ratings (Suc 0) demo_collab demo_bad_archive None)) = Inl BadZipFile \<and>
   os_path_exists (snd (the (fetch_ml20m_ratings (Suc 0) demo_collab demo_bad_archive None)))
     ''/d/ml-20m.zip'' \<and>
   fetch_ml20m_ratings (Suc 0) demo_collab
     (snd (the (fetch_ml20m_ratings (Suc 0) demo_collab demo_bad_archive None))) None \<noteq> None \<and>
   fst (the (fetch_ml20m_ratings (Suc 0) demo_collab
     (snd (the (fetch_ml20m_ratings (Suc 0) demo_collab demo_bad_archive None))) None)) =
     Inr [(0, \<lparr>u_id = 4, i_id = 5, rating = 6, timestamp = 7\<rparr>),
          (1, \<lparr>u_id = 1, i_id = 2, rating = 3, timestamp = 9\<rparr>)] \<and>
   trace (snd (the (fetch_ml20m_ratings (Suc 0) demo_collab
     (snd (the (fetch_ml20m_ratings (Suc 0) demo_collab demo_bad_archive None))) None))) =
     [Printed ''Unzipping data...'', ExtractAll ''/d/ml-20m.zip'' ''/d'',
      ReadCsv ''/d/ml-20m/ratings.csv'']"
  by (simp add: model_defs demo_defs)

section \<open>Resolution from any cache state\<close>

text \<open>
  The bound on the activations is not part of the result: a run that returns with
  \<open>n\<close> activations returns the same with more.
\<close>

lemma fetch_more_fuel:
  "fetch_ml20m_ratings n c w arg = Some r \<Longrightarrow> fetch_ml20m_ratings (Suc n) c w arg = Some r"
proof (induction n arbitrary: w arg)
  case 0
  then show ?case by simp
next
  case (Suc n)
  have rec: "fetch_ml20m_ratings (Suc n) c v None = Some r"
    if "fetch_ml20m_ratings n c v None = Some r" for v
    using that by (rule Suc.IH)
  show ?case
    using Suc.prems
    apply (subst fetch_ml20m_ratings.simps(2))
    apply (subst (asm) fetch_ml20m_ratings.simps(2))
    apply (auto split: sum.splits prod.splits if_splits option.splits
        simp del: fetch_ml20m_ratings.simps intro: rec)
    done
qed

lemma fetch_enough_fuel:
  "fetch_ml20m_ratings n c w arg = Some r \<Longrightarrow> fetch_ml20m_ratings (n + k) c w arg = Some r"
  by (induction k) (simp_all add: fetch_more_fuel del: fetch_ml20m_ratings.simps)

lemma bind_locals_None_total:
  "default_data_dir c w \<noteq> [] \<Longrightarrow> \<exists>l w1. bind_locals c w None = Inr (l, w1)"
  by (simp add: bind_locals_def get_data_dir_path_def os_makedirs_def Let_def)

lemma ml20m_ratings_csv_to_df_file:
  "fs w p = Some (File b) \<Longrightarrow>
   ml20m_ratings_csv_to_df c w p = (csv_bytes_to_df c b, log_event (ReadCsv p) w)"
  by (simp add: ml20m_ratings_csv_to_df_def Let_def)

lemma ml20m_ratings_csv_to_df_world:
  "snd (ml20m_ratings_csv_to_df c w p) = log_event (ReadCsv p) w"
  by (simp add: ml20m_ratings_csv_to_df_def Let_def split: option.splits node.splits)

lemma ml20m_ratings_csv_to_df_Inr_file:
  assumes "ml20m_ratings_csv_to_df c w p = (Inr T, w')"
  shows "\<exists>b. fs w p = Some (File b) \<and> csv_bytes_to_df c b = Inr T" "w' = log_event (ReadCsv p) w"
  using assms
  by (auto simp: ml20m_ratings_csv_to_df_def Let_def split: option.splits node.splits)

lemma work_done_log_event [simp]:
  "work_done (log_event e w) = work_done w @ (if is_work e then [e] else [])"
  by (simp add: work_done_def)

text \<open>A call that finds the source file changes nothing but the data directory node.\<close>

lemma fetch_source_present_fs:
  assumes "fetch_ml20m_ratings n c w None = Some (r, w')"
    and "fs w (cache_csv_path (default_data_dir c w)) \<noteq> None"
    and "q \<noteq> default_data_dir c w"
  shows "fs w' q = fs w q"
proof (cases n)
  case 0
  then show ?thesis using assms(1) by simp
next
  case (Suc k)
  show ?thesis
  proof (cases "bind_locals c w None")
    case (Inl e)
    then show ?thesis using assms(1) Suc by simp
  next
    case (Inr lw)
    obtain l w1 where lw: "lw = (l, w1)" by (cases lw)
    have bl: "bind_locals c w None = Inr (l, w1)" using Inr lw by simp
    note l = bind_locals_None(2) [OF bl]
    note g = get_data_dir_path_None [OF bind_locals_None(1) [OF bl]]
    have "fs w1 (csv_path l) \<noteq> None"
      using g(5) [of "cache_csv_path (default_data_dir c w)"] assms(2) l by simp
    then have "fetch_ml20m_ratings (Suc k) c w None = Some (ml20m_ratings_csv_to_df c w1 (csv_path l))"
      by (rule fetch_source_ready [OF bl])
    then have "w' = snd (ml20m_ratings_csv_to_df c w1 (csv_path l))"
      using assms(1) Suc by (metis option.inject snd_conv)
    then have "fs w' = fs w1"
      by (simp add: ml20m_ratings_csv_to_df_world)
    then show ?thesis
      using g(5) [OF assms(3)] by simp
  qed
qed

lemma fetch_resolved:
  "fetch_ml20m_ratings n c w None = Some (Inr T, w') \<Longrightarrow>
   environ w' = environ w \<and>
   fs w' (default_data_dir c w) \<noteq> None \<and>
   (\<exists>b. fs w' (cache_csv_path (default_data_dir c w)) = Some (File b) \<and> csv_bytes_to_df c b = Inr T) \<and>
   (fs w (cache_csv_path (default_data_dir c w)) = None \<longrightarrow>
      fs w' (cache_zip_path (default_data_dir c w)) = None)"
proof (induction n arbitrary: w)
  case 0
  then show ?case by simp
next
  case (Suc n)
  let ?d = "default_data_dir c w"
  let ?csv = "cache_csv_path ?d"
  let ?zp = "cache_zip_path ?d"
  obtain l w1 where bl: "bind_locals c w None = Inr (l, w1)"
    using Suc.prems by (cases "bind_locals c w None") auto
  note l = bind_locals_None(2) [OF bl]
  note g = get_data_dir_path_None [OF bind_locals_None(1) [OF bl]]
  have csv: "csv_path l = ?csv" and zp: "zip_path l = Some ?zp" and dd: "data_dir_path l = ?d"
    using l by simp_all
  have csv1: "fs w1 ?csv = fs w ?csv" and zp1: "fs w1 ?zp = fs w ?zp"
    using g(5) [of ?csv] g(5) [of ?zp] by simp_all
  show ?case
  proof (cases "fs w1 ?csv")
    case (Some a)
    have "fetch_ml20m_ratings (Suc n) c w None = Some (ml20m_ratings_csv_to_df c w1 ?csv)"
      using fetch_source_ready [OF bl, of n] Some csv by simp
    then have r: "ml20m_ratings_csv_to_df c w1 ?csv = (Inr T, w')"
      using Suc.prems by simp
    note f = ml20m_ratings_csv_to_df_Inr_file [OF r]
    show ?thesis
      using f g(2,4) Some csv1 by auto
  next
    case None
    note absent = None
    show ?thesis
    proof (cases "fs w1 ?zp")
      case None
      obtain e w2 where dl: "download (py_print ''Downloading data...'' w1) ml20m_url ?zp = (e, w2)"
        by (cases "download (py_print ''Downloading data...'' w1) ml20m_url ?zp")
      note x = download_effect [OF dl]
      have step: "fetch_ml20m_ratings (Suc n) c w None =
          (case (e, w2) of (Some e, w2) \<Rightarrow> Some (Inl e, w2)
           | (None, w2) \<Rightarrow> fetch_ml20m_ratings n c w2 None)"
        using fetch_empty [OF bl _ zp, of n] absent None csv dl by simp
      have rec: "fetch_ml20m_ratings n c w2 None = Some (Inr T, w')"
        using step Suc.prems by (cases e) auto
      have env: "environ w2 = environ w"
        using x(1) g(2) by simp
      have d2: "default_data_dir c w2 = ?d"
        using env by (rule default_data_dir_cong)
      have "fs w2 ?csv = None"
        using x(2) [of ?csv] absent by simp
      then show ?thesis
        using Suc.IH [OF rec] d2 env by simp
    next
      case (Some a)
      let ?w0 = "py_print ''Unzipping data...'' w1"
      obtain e w2 where ex: "zip_extractall c ?w0 ?zp ?d = (e, w2)"
        by (cases "zip_extractall c ?w0 ?zp ?d")
      note x = zip_extractall_effect [OF ex]
      have step: "fetch_ml20m_ratings (Suc n) c w None =
          (case (e, w2) of (Some e, w2) \<Rightarrow> Some (Inl e, w2)
           | (None, w2) \<Rightarrow>
               (case os_remove w2 ?zp of
                  Inl e \<Rightarrow> Some (Inl e, w2)
                | Inr w3 \<Rightarrow> fetch_ml20m_ratings n c w3 None))"
        using fetch_archive_ready [OF bl _ zp, of n] absent Some csv ex dd by simp
      obtain w3 where rm: "os_remove w2 ?zp = Inr w3"
        and rec: "fetch_ml20m_ratings n c w3 None = Some (Inr T, w')"
        using step Suc.prems by (cases e; cases "os_remove w2 ?zp") auto
      note y = os_remove_effect [OF rm]
      have env: "environ w3 = environ w"
        using y(1) x(1) g(2) by simp
      have d3: "default_data_dir c w3 = ?d"
        using env by (rule default_data_dir_cong)
      have gone: "fs w3 ?zp = None"
        using y(4) by simp
      have "fs w' ?zp = None"
      proof (cases "fs w3 ?csv")
        case None
        then show ?thesis using Suc.IH [OF rec] d3 by simp
      next
        case (Some b)
        have "fs w' ?zp = fs w3 ?zp"
          using fetch_source_present_fs [OF rec, of ?zp] Some d3 by simp
        then show ?thesis using gone by simp
      qed
      then show ?thesis
        using Suc.IH [OF rec] d3 env by simp
    qed
  qed
qed

lemma download_trace:
  "download w u zp = (e, w2) \<Longrightarrow> \<exists>post. trace w2 = trace w @ post"
  by (auto simp: download_def Let_def split: list.splits response.splits if_splits)

lemma bind_locals_trace:
  "bind_locals c w arg = Inr (l, w1) \<Longrightarrow> \<exists>post. trace w1 = trace w @ post"
  by (auto simp: bind_locals_def get_data_dir_path_def os_makedirs_def Let_def
      split: sum.splits if_splits option.splits)

lemma fetch_trace_grows:
  "fetch_ml20m_ratings n c w None = Some (r, w') \<Longrightarrow> \<exists>post. trace w' = trace w @ post"
proof (induction n arbitrary: w)
  case 0
  then show ?case by simp
next
  case (Suc n)
  show ?case
  proof (cases "bind_locals c w None")
    case (Inl e)
    then show ?thesis using Suc.prems by simp
  next
    case (Inr lw)
    obtain l w1 where bl: "bind_locals c w None = Inr (l, w1)"
      using Inr by (cases lw) simp
    obtain p1 where t1: "trace w1 = trace w @ p1"
      using bind_locals_trace [OF bl] by blast
    note l = bind_locals_None(2) [OF bl]
    let ?d = "default_data_dir c w"
    let ?csv = "cache_csv_path ?d"
    let ?zp = "cache_zip_path ?d"
    have csv: "csv_path l = ?csv" and zp: "zip_path l = Some ?zp" and dd: "data_dir_path l = ?d"
      using l by simp_all
    have "\<exists>post. trace w' = trace w1 @ post"
    proof (cases "fs w1 ?csv")
      case (Some a)
      have "fetch_ml20m_ratings (Suc n) c w None = Some (ml20m_ratings_csv_to_df c w1 ?csv)"
        using fetch_source_ready [OF bl, of n] Some csv by simp
      then have "w' = snd (ml20m_ratings_csv_to_df c w1 ?csv)"
        using Suc.prems by (metis option.inject snd_conv)
      then show ?thesis
        by (simp add: ml20m_ratings_csv_to_df_world)
    next
      case None
      note absent = None
      show ?thesis
      proof (cases "fs w1 ?zp")
        case None
        obtain e w2 where dl: "download (py_print ''Downloading data...'' w1) ml20m_url ?zp = (e, w2)"
          by (cases "download (py_print ''Downloading data...'' w1) ml20m_url ?zp")
        obtain p2 where t2: "trace w2 = trace (py_print ''Downloading data...'' w1) @ p2"
          using download_trace [OF dl] by blast
        have step: "fetch_ml20m_ratings (Suc n) c w None =
            (case (e, w2) of (Some e, w2) \<Rightarrow> Some (Inl e, w2)
             | (None, w2) \<Rightarrow> fetch_ml20m_ratings n c w2 None)"
          using fetch_empty [OF bl _ zp, of n] absent None csv dl by simp
        show ?thesis
        proof (cases e)
          case None
          then have "fetch_ml20m_ratings n c w2 None = Some (r, w')"
            using step Suc.prems by simp
          then obtain p3 where "trace w' = trace w2 @ p3"
            using Suc.IH by blast
          then show ?thesis using t2 by simp
        next
          case (Some e')
          then have "w' = w2" using step Suc.prems by simp
          then show ?thesis using t2 by simp
        qed
      next
        case (Some a)
        let ?w0 = "py_print ''Unzipping data...'' w1"
        obtain e w2 where ex: "zip_extractall c ?w0 ?zp ?d = (e, w2)"
          by (cases "zip_extractall c ?w0 ?zp ?d")
        note x = zip_extractall_effect [OF ex]
        have t2: "trace w2 = trace w1 @ [Printed ''Unzipping data...'', ExtractAll ?zp ?d]"
          using x(3) by simp
        have step: "fetch_ml20m_ratings (Suc n) c w None =
            (case (e, w2) of (Some e, w2) \<Rightarrow> Some (Inl e, w2)
             | (None, w2) \<Rightarrow>
                 (case os_remove w2 ?zp of
                    Inl e \<Rightarrow> Some (Inl e, w2)
                  | Inr w3 \<Rightarrow> fetch_ml20m_ratings n c w3 None))"
          using fetch_archive_ready [OF bl _ zp, of n] absent Some csv ex dd by simp
        show ?thesis
        proof (cases e)
          case (Some e')
          then have "w' = w2" using step Suc.prems by simp
          then show ?thesis using t2 by simp
        next
          case None
          note ok = None
          show ?thesis
          proof (cases "os_remove w2 ?zp")
            case (Inl e')
            then have "w' = w2" using step Suc.prems ok by simp
            then show ?thesis using t2 by simp
          next
            case (Inr w3)
            then have "fetch_ml20m_ratings n c w3 None = Some (r, w')"
              using step Suc.prems ok by simp
            then obtain p3 where "trace w' = trace w3 @ p3"
              using Suc.IH by blast
            then show ?thesis
              using os_remove_effect(3) [OF Inr] t2 by simp
          qed
        qed
      qed
    qed
    then show ?thesis using t1 by auto
  qed
qed

text \<open>
  C5. From the archive-only state (archive present, source file absent), whenever the
  call returns a table the archive is gone and the source file is there; and in the
  trace the removal of the archive comes right after its extraction.
\<close>

theorem archive_only_resolution:
  assumes "fs w (cache_csv_path (default_data_dir c w)) = None"
    and "fs w (cache_zip_path (default_data_dir c w)) \<noteq> None"
    and "fetch_ml20m_ratings n c w None = Some (Inr T, w')"
  shows "\<not> os_path_exists w' (cache_zip_path (default_data_dir c w)) \<and>
         os_path_exists w' (cache_csv_path (default_data_dir c w)) \<and>
         (\<exists>pre post. trace w' =
            pre @ [ExtractAll (cache_zip_path (default_data_dir c w)) (default_data_dir c w),
                   Remove (cache_zip_path (default_data_dir c w))] @ post)"
proof -
  let ?d = "default_data_dir c w"
  let ?csv = "cache_csv_path ?d"
  let ?zp = "cache_zip_path ?d"
  note r = fetch_resolved [OF assms(3)]
  have state: "\<not> os_path_exists w' ?zp \<and> os_path_exists w' ?csv"
    using r assms(1) by (auto simp: os_path_exists_def)
  obtain k where n: "n = Suc k"
    using assms(3) by (cases n) auto
  obtain l w1 where bl: "bind_locals c w None = Inr (l, w1)"
    using assms(3) n by (cases "bind_locals c w None") auto
  note l = bind_locals_None(2) [OF bl]
  note g = get_data_dir_path_None [OF bind_locals_None(1) [OF bl]]
  have csv: "csv_path l = ?csv" and zp: "zip_path l = Some ?zp" and dd: "data_dir_path l = ?d"
    using l by simp_all
  have absent: "fs w1 ?csv = None" and present: "fs w1 ?zp \<noteq> None"
    using g(5) [of ?csv] g(5) [of ?zp] assms(1,2) by simp_all
  let ?w0 = "py_print ''Unzipping data...'' w1"
  obtain e w2 where ex: "zip_extractall c ?w0 ?zp ?d = (e, w2)"
    by (cases "zip_extractall c ?w0 ?zp ?d")
  have t2: "trace w2 = trace w1 @ [Printed ''Unzipping data...'', ExtractAll ?zp ?d]"
    using zip_extractall_effect(3) [OF ex] by simp
  have step: "fetch_ml20m_ratings (Suc k) c w None =
      (case (e, w2) of (Some e, w2) \<Rightarrow> Some (Inl e, w2)
       | (None, w2) \<Rightarrow>
           (case os_remove w2 ?zp of
              Inl e \<Rightarrow> Some (Inl e, w2)
            | Inr w3 \<Rightarrow> fetch_ml20m_ratings k c w3 None))"
    using fetch_archive_ready [OF bl _ zp, of k] absent present csv ex dd by simp
  obtain w3 where rm: "os_remove w2 ?zp = Inr w3"
    and rec: "fetch_ml20m_ratings k c w3 None = Some (Inr T, w')"
    using step assms(3) n by (cases e; cases "os_remove w2 ?zp") auto
  obtain post where "trace w' = trace w3 @ post"
    using fetch_trace_grows [OF rec] by blast
  then have "trace w' = (trace w1 @ [Printed ''Unzipping data...'']) @ [ExtractAll ?zp ?d, Remove ?zp] @ post"
    using os_remove_effect(3) [OF rm] t2 by simp
  then show ?thesis
    using state by blast
qed

theorem archive_only_resolution_witness:
  "fs demo_archive ''/d/ml-20m/ratings.csv'' = None \<and>
   fs demo_archive ''/d/ml-20m.zip'' \<noteq> None \<and>
   fetch_ml20m_ratings (Suc (Suc 0)) demo_collab demo_archive None \<noteq> None \<and>
   fst (the (fetch_ml20m_ratings (Suc (Suc 0)) demo_collab demo_archive None)) =
     Inr [(0, \<lparr>u_id = 4, i_id = 5, rating = 6, timestamp = 7\<rparr>),
          (1, \<lparr>u_id = 1, i_id = 2, rating = 3, timestamp = 9\<rparr>)] \<and>
   \<not> os_path_exists (snd (the (fetch_ml20m_ratings (Suc (Suc 0)) demo_collab demo_archive None)))
       ''/d/ml-20m.zip'' \<and>
   os_path_exists (snd (the (fetch_ml20m_ratings (Suc (Suc 0)) demo_collab demo_archive None)))
     ''/d/ml-20m/ratings.csv'' \<and>
   trace (snd (the (fetch_ml20m_ratings (Suc (Suc 0)) demo_collab demo_archive None))) =
     [Printed ''Unzipping data...''] @
     [ExtractAll ''/d/ml-20m.zip'' ''/d'', Remove ''/d/ml-20m.zip''] @
     [ReadCsv ''/d/ml-20m/ratings.csv'']"
proof -
  let ?T = "[(0, \<lparr>u_id = 4, i_id = 5, rating = 6, timestamp = 7\<rparr>),
             (1, \<lparr>u_id = 1, i_id = 2, rating = 3, timestamp = 9\<rparr>)] :: int df"
  let ?r = "fetch_ml20m_ratings (Suc (Suc 0)) demo_collab demo_archive None"
  have d: "default_data_dir demo_collab demo_archive = ''/d''"
    by (simp add: model_defs demo_defs)
  have csv: "cache_csv_path ''/d'' = ''/d/ml-20m/ratings.csv''"
    and zp: "cache_zip_path ''/d'' = ''/d/ml-20m.zip''"
    by (simp_all add: model_defs)
  have 1: "fs demo_archive (cache_csv_path (default_data_dir demo_collab demo_archive)) = None"
    unfolding d csv by (simp add: demo_archive_def)
  have 2: "fs demo_archive (cache_zip_path (default_data_dir demo_collab demo_archive)) \<noteq> None"
    unfolding d zp by (simp add: demo_archive_def)
  have 3: "?r = Some (Inr ?T, snd (the ?r))"
    by (simp add: model_defs demo_defs)
  have 4: "trace (snd (the ?r)) =
     [Printed ''Unzipping data...''] @
     [ExtractAll ''/d/ml-20m.zip'' ''/d'', Remove ''/d/ml-20m.zip''] @
     [ReadCsv ''/d/ml-20m/ratings.csv'']"
    by (simp add: model_defs demo_defs)
  have 5: "?r \<noteq> None" and 6: "fst (the ?r) = Inr ?T"
    using 3 by (metis option.distinct(1), metis fst_conv option.sel)
  note concl = archive_only_resolution [OF 1 2 3, unfolded d csv zp]
  show ?thesis
    using concl 1 2 4 5 6 unfolding d csv zp by blast
qed

lemma fetch_from_source_state:
  assumes "default_data_dir c w \<noteq> []"
    and "fs w (cache_csv_path (default_data_dir c w)) = Some (File D)"
  shows "map_option fst (fetch_ml20m_ratings (Suc n) c w None) = Some (csv_bytes_to_df c D)"
proof -
  obtain l w1 where bl: "bind_locals c w None = Inr (l, w1)"
    using bind_locals_None_total [OF assms(1)] by blast
  note l = bind_locals_None(2) [OF bl]
  note g = get_data_dir_path_None [OF bind_locals_None(1) [OF bl]]
  have f: "fs w1 (csv_path l) = Some (File D)"
    using g(5) [of "cache_csv_path (default_data_dir c w)"] assms(2) l by simp
  have "fetch_ml20m_ratings (Suc n) c w None = Some (ml20m_ratings_csv_to_df c w1 (csv_path l))"
    by (rule fetch_source_ready [OF bl]) (simp add: f)
  then show ?thesis
    by (simp add: ml20m_ratings_csv_to_df_file [OF f] del: fetch_ml20m_ratings.simps)
qed

lemma fetch_from_archive_state:
  assumes "default_data_dir c w \<noteq> []"
    and "fs w (cache_csv_path (default_data_dir c w)) = None"
    and "fs w (cache_zip_path (default_data_dir c w)) = Some (File Z)"
    and "unzip c Z = (ms, None)"
    and "write_members (default_data_dir c w) ms Map.empty (cache_csv_path (default_data_dir c w)) =
           Some (File D)"
  shows "map_option fst (fetch_ml20m_ratings (Suc (Suc n)) c w None) = Some (csv_bytes_to_df c D)"
proof -
  let ?d = "default_data_dir c w"
  let ?csv = "cache_csv_path ?d"
  let ?zp = "cache_zip_path ?d"
  obtain l w1 where bl: "bind_locals c w None = Inr (l, w1)"
    using bind_locals_None_total [OF assms(1)] by blast
  note l = bind_locals_None(2) [OF bl]
  note g = get_data_dir_path_None [OF bind_locals_None(1) [OF bl]]
  have csv: "csv_path l = ?csv" and zp: "zip_path l = Some ?zp" and dd: "data_dir_path l = ?d"
    using l by simp_all
  have absent: "\<not> os_path_exists w1 (csv_path l)"
    using g(5) [of ?csv] assms(2) csv by (simp add: os_path_exists_def)
  have present: "fs w1 ?zp = Some (File Z)"
    using g(5) [of ?zp] assms(3) by simp
  let ?w3 = "w1\<lparr>fs := (write_members (data_dir_path l) ms (fs w1))(?zp := None),
                 trace := trace w1 @ [Printed ''Unzipping data...'',
                                      ExtractAll ?zp (data_dir_path l), Remove ?zp]\<rparr>"
  have step: "fetch_ml20m_ratings (Suc (Suc n)) c w None = fetch_ml20m_ratings (Suc n) c ?w3 None"
    by (rule fetch_archive_ready_step [OF bl absent zp present assms(4), of "Suc n", THEN conjunct2])
  have d3: "default_data_dir c ?w3 = ?d"
    using g(2) by (simp add: default_data_dir_def)
  have "fs ?w3 ?csv = Some (File D)"
    using write_members_override [OF assms(5), of "fs w1"] dd by simp
  then have "map_option fst (fetch_ml20m_ratings (Suc n) c ?w3 None) = Some (csv_bytes_to_df c D)"
    using fetch_from_source_state [of c ?w3 D n] d3 assms(1) by (simp del: fetch_ml20m_ratings.simps)
  then show ?thesis
    unfolding step .
qed

lemma fetch_from_empty_state:
  assumes "default_data_dir c w \<noteq> []"
    and "fs w (cache_csv_path (default_data_dir c w)) = None"
    and "fs w (cache_zip_path (default_data_dir c w)) = None"
    and "net w = Body Z # rs"
    and "unzip c Z = (ms, None)"
    and "write_members (default_data_dir c w) ms Map.empty (cache_csv_path (default_data_dir c w)) =
           Some (File D)"
  shows "map_option fst (fetch_ml20m_ratings (Suc (Suc (Suc n))) c w None) = Some (csv_bytes_to_df c D)"
proof -
  let ?d = "default_data_dir c w"
  let ?csv = "cache_csv_path ?d"
  let ?zp = "cache_zip_path ?d"
  obtain l w1 where bl: "bind_locals c w None = Inr (l, w1)"
    using bind_locals_None_total [OF assms(1)] by blast
  note l = bind_locals_None(2) [OF bl]
  note g = get_data_dir_path_None [OF bind_locals_None(1) [OF bl]]
  have csv: "csv_path l = ?csv" and zp: "zip_path l = Some ?zp"
    using l by simp_all
  have absent: "fs w1 (csv_path l) = None" and nozip: "fs w1 ?zp = None"
    using g(5) [of ?csv] g(5) [of ?zp] assms(2,3) csv by simp_all
  let ?w0 = "py_print ''Downloading data...'' w1"
  let ?w2 = "log_event (WriteFile ?zp)
               (log_event (UrlOpen ml20m_url) ?w0\<lparr>net := rs, fs := (fs w1)(?zp \<mapsto> File Z)\<rparr>)"
  have dl: "download ?w0 ml20m_url ?zp = (None, ?w2)"
    using assms(4) g(3) nozip by (simp add: download_def Let_def)
  have step: "fetch_ml20m_ratings (Suc (Suc (Suc n))) c w None =
      fetch_ml20m_ratings (Suc (Suc n)) c ?w2 None"
    unfolding fetch_empty [OF bl absent zp nozip, of "Suc (Suc n)"] dl by (simp del: fetch_ml20m_ratings.simps)
  have d2: "default_data_dir c ?w2 = ?d"
    using g(2) by (simp add: default_data_dir_def)
  have "fs ?w2 ?csv = None" and "fs ?w2 ?zp = Some (File Z)"
    using absent csv by simp_all
  then have "map_option fst (fetch_ml20m_ratings (Suc (Suc n)) c ?w2 None) = Some (csv_bytes_to_df c D)"
    using fetch_from_archive_state [of c ?w2 Z ms D n] d2 assms(1,5,6) by (simp del: fetch_ml20m_ratings.simps)
  then show ?thesis
    unfolding step .
qed

text \<open>
  C4. Three worlds that resolve the same data directory, one with the source file, one
  with only the archive, one with neither and the archive as the next reply of the
  network, the archive decoding without error to members that put the same bytes at
  the source path: one call in each returns the same result, the table loaded from
  those bytes.
\<close>

theorem cache_state_independence:
  assumes "default_data_dir c wa = d" and "default_data_dir c wb = d"
    and "default_data_dir c wc = d" and "d \<noteq> []"
    and "fs wa (cache_csv_path d) = Some (File D)"
    and "fs wb (cache_csv_path d) = None" and "fs wb (cache_zip_path d) = Some (File Z)"
    and "fs wc (cache_csv_path d) = None" and "fs wc (cache_zip_path d) = None"
    and "net wc = Body Z # rs"
    and "unzip c Z = (ms, None)"
    and "write_members d ms Map.empty (cache_csv_path d) = Some (File D)"
  shows "map_option fst (fetch_ml20m_ratings (Suc n) c wa None) = Some (csv_bytes_to_df c D) \<and>
         map_option fst (fetch_ml20m_ratings (Suc (Suc n)) c wb None) = Some (csv_bytes_to_df c D) \<and>
         map_option fst (fetch_ml20m_ratings (Suc (Suc (Suc n))) c wc None) = Some (csv_bytes_to_df c D)"
proof (intro conjI)
  show "map_option fst (fetch_ml20m_ratings (Suc n) c wa None) = Some (csv_bytes_to_df c D)"
    using assms(1,4,5) by (intro fetch_from_source_state) simp_all
  show "map_option fst (fetch_ml20m_ratings (Suc (Suc n)) c wb None) = Some (csv_bytes_to_df c D)"
    using assms(2,4,6,7,11,12) by (intro fetch_from_archive_state [where Z = Z and ms = ms]) simp_all
  show "map_option fst (fetch_ml20m_ratings (Suc (Suc (Suc n))) c wc None) = Some (csv_bytes_to_df c D)"
    using assms(3,4,8,9,10,11,12)
    by (intro fetch_from_empty_state [where Z = Z and ms = ms and rs = rs]) simp_all
qed

theorem cache_state_independence_witness:
  "default_data_dir demo_collab demo_source = ''/d'' \<and>
   default_data_dir demo_collab demo_archive = ''/d'' \<and>
   default_data_dir demo_collab demo_empty = ''/d'' \<and>
   fs demo_source ''/d/ml-20m/ratings.csv'' = Some (File demo_csv) \<and>
   fs demo_archive ''/d/ml-20m/ratings.csv'' = None \<and>
   fs demo_archive ''/d/ml-20m.zip'' = Some (File ''Z1'') \<and>
   fs demo_empty ''/d/ml-20m/ratings.csv'' = None \<and>
   fs demo_empty ''/d/ml-20m.zip'' = None \<and>
   net demo_empty = [Body ''Z1''] \<and>
   unzip demo_collab ''Z1'' = ([(''ml-20m/ratings.csv'', demo_csv)], None) \<and>
   map_option fst (fetch_ml20m_ratings (Suc 0) demo_collab demo_source None) =
     Some (Inr [(0, \<lparr>u_id = 4, i_id = 5, rating = 6, timestamp = 7\<rparr>),
                (1, \<lparr>u_id = 1, i_id = 2, rating = 3, timestamp = 9\<rparr>)]) \<and>
   map_option fst (fetch_ml20m_ratings (Suc (Suc 0)) demo_collab demo_archive None) =
     Some (Inr [(0, \<lparr>u_id = 4, i_id = 5, rating = 6, timestamp = 7\<rparr>),
                (1, \<lparr>u_id = 1, i_id = 2, rating = 3, timestamp = 9\<rparr>)]) \<and>
   map_option fst (fetch_ml20m_ratings (Suc (Suc (Suc 0))) demo_collab demo_empty None) =
     Some (Inr [(0, \<lparr>u_id = 4, i_id = 5, rating = 6, timestamp = 7\<rparr>),
                (1, \<lparr>u_id = 1, i_id = 2, rating = 3, timestamp = 9\<rparr>)])"
proof -
  have da: "default_data_dir demo_collab demo_source = ''/d''"
    and db: "default_data_dir demo_collab demo_archive = ''/d''"
    and dc: "default_data_dir demo_collab demo_empty = ''/d''"
    by (simp_all add: model_defs demo_defs)
  have ne: "''/d'' \<noteq> []"
    by simp
  have csv: "cache_csv_path ''/d'' = ''/d/ml-20m/ratings.csv''"
    and zp: "cache_zip_path ''/d'' = ''/d/ml-20m.zip''"
    by (simp_all add: model_defs)
  have a: "fs demo_source (cache_csv_path ''/d'') = Some (File demo_csv)"
    unfolding csv by (simp add: demo_source_def)
  have b1: "fs demo_archive (cache_csv_path ''/d'') = None"
    and b2: "fs demo_archive (cache_zip_path ''/d'') = Some (File ''Z1'')"
    unfolding csv zp by (simp_all add: demo_archive_def)
  have c1: "fs demo_empty (cache_csv_path ''/d'') = None"
    and c2: "fs demo_empty (cache_zip_path ''/d'') = None"
    and c3: "net demo_empty = Body ''Z1'' # []"
    unfolding csv zp by (simp_all add: demo_empty_def)
  have u: "unzip demo_collab ''Z1'' = ([(''ml-20m/ratings.csv'', demo_csv)], None)"
    by (simp add: demo_collab_def demo_unzip_def)
  have x: "write_members ''/d'' [(''ml-20m/ratings.csv'', demo_csv)] Map.empty (cache_csv_path ''/d'') =
      Some (File demo_csv)"
    unfolding csv by (simp add: os_path_join_def)
  have t: "csv_bytes_to_df demo_collab demo_csv =
      Inr [(0, \<lparr>u_id = 4, i_id = 5, rating = 6, timestamp = 7\<rparr>),
           (1, \<lparr>u_id = 1, i_id = 2, rating = 3, timestamp = 9\<rparr>)]"
    by (simp add: model_defs demo_defs)
  note concl = cache_state_independence [OF da db dc ne a b1 b2 c1 c2 c3 u x, of 0, unfolded t]
  show ?thesis
    using concl da db dc a b1 b2 c1 c2 c3 u unfolding csv zp by blast
qed

section \<open>The source file is there\<close>

text \<open>
  C7. When the source file exists once the paths are bound, the first activation
  already returns what the loader returns on that file (fuel \<open>Suc n\<close> for any \<open>n\<close>, so
  also with no activation left for a recursive call), and the only thing it adds to the
  world is the record of reading the file: no request, no write, no extraction, no
  removal, and the network queue is untouched. Consequently, after any call that
  returned a table, a second call with the same argument returns the same table in one
  activation, with no work done and the file system unchanged.
\<close>

theorem source_ready_returns_without_work:
  "(bind_locals c w arg = Inr (l, w1) \<and> os_path_exists w1 (csv_path l) \<longrightarrow>
      fetch_ml20m_ratings (Suc n) c w arg = Some (ml20m_ratings_csv_to_df c w1 (csv_path l)) \<and>
      snd (ml20m_ratings_csv_to_df c w1 (csv_path l)) = log_event (ReadCsv (csv_path l)) w1 \<and>
      work_done (log_event (ReadCsv (csv_path l)) w1) = work_done w \<and>
      net (log_event (ReadCsv (csv_path l)) w1) = net w) \<and>
   (fetch_ml20m_ratings k c w arg = Some (Inr T, w') \<longrightarrow>
      (\<exists>w''. fetch_ml20m_ratings (Suc 0) c w' arg = Some (Inr T, w'') \<and>
             work_done w'' = work_done w' \<and> net w'' = net w' \<and> fs w'' = fs w'))"
proof (intro conjI impI)
  assume a: "bind_locals c w arg = Inr (l, w1) \<and> os_path_exists w1 (csv_path l)"
  then have bl: "bind_locals c w arg = Inr (l, w1)" and ex: "fs w1 (csv_path l) \<noteq> None"
    by (simp_all add: os_path_exists_def)
  show "fetch_ml20m_ratings (Suc n) c w arg = Some (ml20m_ratings_csv_to_df c w1 (csv_path l))"
    using bl ex by (rule fetch_source_ready)
  show "snd (ml20m_ratings_csv_to_df c w1 (csv_path l)) = log_event (ReadCsv (csv_path l)) w1"
    by (rule ml20m_ratings_csv_to_df_world)
  have "work_done w1 = work_done w \<and> net w1 = net w"
  proof (cases arg)
    case None
    then show ?thesis
      using get_data_dir_path_None(3,6) [OF bind_locals_None(1)] bl by blast
  next
    case (Some p)
    then show ?thesis using bl by (simp add: bind_locals_def)
  qed
  then show "work_done (log_event (ReadCsv (csv_path l)) w1) = work_done w"
    and "net (log_event (ReadCsv (csv_path l)) w1) = net w"
    by simp_all
next
  assume r: "fetch_ml20m_ratings k c w arg = Some (Inr T, w')"
  show "\<exists>w''. fetch_ml20m_ratings (Suc 0) c w' arg = Some (Inr T, w'') \<and>
             work_done w'' = work_done w' \<and> net w'' = net w' \<and> fs w'' = fs w'"
  proof (cases arg)
    case (Some p)
    obtain j where k: "k = Suc j" using r by (cases k) auto
    have bl: "bind_locals c w (Some p) = Inr (\<lparr>data_dir_path = p, csv_path = p, zip_path = None, url = None\<rparr>, w)"
      by (simp add: bind_locals_def)
    have ex: "fs w p \<noteq> None"
      using r unfolding k Some by (auto simp: bind_locals_def os_path_exists_def split: if_splits)
    have "fetch_ml20m_ratings (Suc j) c w (Some p) = Some (ml20m_ratings_csv_to_df c w p)"
      using fetch_source_ready [OF bl, of j] ex by simp
    then have m: "ml20m_ratings_csv_to_df c w p = (Inr T, w')"
      using r k Some by simp
    obtain b where b: "fs w p = Some (File b)" "csv_bytes_to_df c b = Inr T"
      and w': "w' = log_event (ReadCsv p) w"
      using ml20m_ratings_csv_to_df_Inr_file [OF m] by blast
    have b': "fs w' p = Some (File b)" using b w' by simp
    have bl': "bind_locals c w' (Some p) = Inr (\<lparr>data_dir_path = p, csv_path = p, zip_path = None, url = None\<rparr>, w')"
      by (simp add: bind_locals_def)
    have "fetch_ml20m_ratings (Suc 0) c w' (Some p) = Some (ml20m_ratings_csv_to_df c w' p)"
      using fetch_source_ready [OF bl', of 0] b' by simp
    then have "fetch_ml20m_ratings (Suc 0) c w' arg = Some (Inr T, log_event (ReadCsv p) w')"
      using ml20m_ratings_csv_to_df_file [OF b', of c] b(2) Some by simp
    then show ?thesis by simp
  next
    case None
    let ?d = "default_data_dir c w"
    have r': "fetch_ml20m_ratings k c w None = Some (Inr T, w')"
      using r None by simp
    note res = fetch_resolved [OF r']
    have env: "environ w' = environ w"
      and dir: "fs w' ?d \<noteq> None"
      and csvfile: "\<exists>b. fs w' (cache_csv_path ?d) = Some (File b) \<and> csv_bytes_to_df c b = Inr T"
      using res by simp_all
    obtain b where b: "fs w' (cache_csv_path ?d) = Some (File b)" "csv_bytes_to_df c b = Inr T"
      using csvfile by (elim exE conjE)
    have d': "default_data_dir c w' = ?d"
      using env by (rule default_data_dir_cong)
    have "fs w' (default_data_dir c w') \<noteq> None"
      using dir d' by simp
    then have bl': "bind_locals c w' None =
        Inr (\<lparr>data_dir_path = ?d, csv_path = cache_csv_path ?d,
              zip_path = Some (cache_zip_path ?d), url = Some ml20m_url\<rparr>, w')"
      using bind_locals_None_exists [of w' c] d' by simp
    have "fetch_ml20m_ratings (Suc 0) c w' None = Some (ml20m_ratings_csv_to_df c w' (cache_csv_path ?d))"
      using fetch_source_ready [OF bl', of 0] b(1) by simp
    then have "fetch_ml20m_ratings (Suc 0) c w' arg =
        Some (Inr T, log_event (ReadCsv (cache_csv_path ?d)) w')"
      using ml20m_ratings_csv_to_df_file [OF b(1), of c] b(2) None by simp
    then show ?thesis by simp
  qed
qed

theorem source_ready_returns_without_work_witness:
  "bind_locals demo_collab demo_source None =
     Inr (\<lparr>data_dir_path = ''/d'', csv_path = ''/d/ml-20m/ratings.csv'',
           zip_path = Some ''/d/ml-20m.zip'', url = Some ml20m_url\<rparr>, demo_source) \<and>
   os_path_exists demo_source ''/d/ml-20m/ratings.csv'' \<and>
   fetch_ml20m_ratings (Suc 0) demo_collab demo_source None =
     Some (ml20m_ratings_csv_to_df demo_collab demo_source ''/d/ml-20m/ratings.csv'') \<and>
   work_done (snd (ml20m_ratings_csv_to_df demo_collab demo_source ''/d/ml-20m/ratings.csv'')) =
     work_done demo_source \<and>
   fetch_ml20m_ratings (Suc (Suc (Suc 0))) demo_collab demo_empty None \<noteq> None \<and>
   fst (the (fetch_ml20m_ratings (Suc (Suc (Suc 0))) demo_collab demo_empty None)) =
     Inr [(0, \<lparr>u_id = 4, i_id = 5, rating = 6, timestamp = 7\<rparr>),
          (1, \<lparr>u_id = 1, i_id = 2, rating = 3, timestamp = 9\<rparr>)] \<and>
   fst (the (fetch_ml20m_ratings (Suc 0) demo_collab
     (snd (the (fetch_ml20m_ratings (Suc (Suc (Suc 0))) demo_collab demo_empty None))) None)) =
     Inr [(0, \<lparr>u_id = 4, i_id = 5, rating = 6, timestamp = 7\<rparr>),
          (1, \<lparr>u_id = 1, i_id = 2, rating = 3, timestamp = 9\<rparr>)] \<and>
   work_done (snd (the (fetch_ml20m_ratings (Suc 0) demo_collab
     (snd (the (fetch_ml20m_ratings (Suc (Suc (Suc 0))) demo_collab demo_empty None))) None))) =
     work_done (snd (the (fetch_ml20m_ratings (Suc (Suc (Suc 0))) demo_collab demo_empty None)))"
proof -
  let ?l = "\<lparr>data_dir_path = ''/d'', csv_path = ''/d/ml-20m/ratings.csv'',
            zip_path = Some ''/d/ml-20m.zip'', url = Some ml20m_url\<rparr>"
  let ?T = "[(0, \<lparr>u_id = 4, i_id = 5, rating = 6, timestamp = 7\<rparr>),
             (1, \<lparr>u_id = 1, i_id = 2, rating = 3, timestamp = 9\<rparr>)] :: int df"
  let ?r = "fetch_ml20m_ratings (Suc (Suc (Suc 0))) demo_collab demo_empty None"
  have 1: "bind_locals demo_collab demo_source None = Inr (?l, demo_source)"
    by (simp add: model_defs demo_defs)
  have 2: "os_path_exists demo_source (csv_path ?l)"
    by (simp add: os_path_exists_def demo_source_def)
  have 3: "?r = Some (Inr ?T, snd (the ?r))"
    by (simp add: model_defs demo_defs)
  note first = source_ready_returns_without_work [of demo_collab demo_source None ?l demo_source 0,
      THEN conjunct1, rule_format, OF conjI, OF 1 2, unfolded locals.select_convs]
  note second = source_ready_returns_without_work [of demo_collab demo_empty None _ _ _
      "Suc (Suc (Suc 0))" ?T "snd (the ?r)", THEN conjunct2, rule_format, OF 3]
  obtain w'' where s: "fetch_ml20m_ratings (Suc 0) demo_collab (snd (the ?r)) None = Some (Inr ?T, w'')"
    "work_done w'' = work_done (snd (the ?r))"
    using second by blast
  have 4: "fst (the (fetch_ml20m_ratings (Suc 0) demo_collab (snd (the ?r)) None)) = Inr ?T"
    and 5: "work_done (snd (the (fetch_ml20m_ratings (Suc 0) demo_collab (snd (the ?r)) None))) =
      work_done (snd (the ?r))"
    unfolding s(1) using s(2) by simp_all
  have 6: "?r \<noteq> None" and 7: "fst (the ?r) = Inr ?T"
    using 3 by (metis option.distinct(1), metis fst_conv option.sel)
  have present: "os_path_exists demo_source ''/d/ml-20m/ratings.csv''"
    using 2 by simp
  have 8: "work_done (snd (ml20m_ratings_csv_to_df demo_collab demo_source ''/d/ml-20m/ratings.csv'')) =
     work_done demo_source"
    using first by simp
  show ?thesis
    using 1 present first 4 5 6 7 8 by blast
qed

end
